theory Spec2Isabelle
  imports Complex_Main
begin

section \<open>Numbers, arrays and errors\<close>

text \<open>
  The solver of \<^verbatim>\<open>raman/raman.py\<close> works on numpy arrays of floats. Here a float is a
  real number, a one-dimensional array is a list and a two-dimensional array is a list of
  rows (first index: frequency slice, second index: sample along z). Rounding is not
  modelled, except that of \<^verbatim>\<open>np.exp\<close> next to 1 in the section on division by zero. Where the source divides by one of its inputs (a slice frequency, a target
  power) the theorems below assume that input to be nonzero, since numpy then yields
  \<^verbatim>\<open>inf\<close> or \<^verbatim>\<open>nan\<close> while division by zero is 0 in HOL. Exceptions are values of
  \<open>py_error\<close>.
\<close>

datatype py_error = AttributeError | ValueError | IndexError

text \<open>numpy's elementwise subtraction of two one-dimensional arrays, with broadcasting of
  an array of length one.\<close>

definition np_sub :: "real list \<Rightarrow> real list \<Rightarrow> py_error + real list" where
  "np_sub xs ys =
     (if length xs = length ys then Inr (map2 (-) xs ys)
      else if length xs = 1 then Inr (map (\<lambda>y. hd xs - y) ys)
      else if length ys = 1 then Inr (map (\<lambda>x. x - hd ys) xs)
      else Inl ValueError)"

text \<open>\<^verbatim>\<open>M[:, z_ind]\<close>: the column of a matrix.\<close>

definition column :: "real list list \<Rightarrow> nat \<Rightarrow> real list" where
  "column M z_ind = map (\<lambda>row. row ! z_ind) M"

section \<open>The boundary residual\<close>

text \<open>
  \<^verbatim>\<open>_residuals_raman\<close>: the loop over \<^verbatim>\<open>enumerate(prop_direct)\<close> writes into an array of
  \<^verbatim>\<open>ya.size\<close> zeros; an index outside \<^verbatim>\<open>ya\<close>, \<^verbatim>\<open>yb\<close> or that array raises IndexError.
\<close>

fun residuals_loop ::
  "real list \<Rightarrow> real list \<Rightarrow> (nat \<times> int) list \<Rightarrow> real list \<Rightarrow> py_error + real list" where
  "residuals_loop ya yb [] computed_boundary_value = Inr computed_boundary_value"
| "residuals_loop ya yb ((index, direction) # rest) computed_boundary_value =
     (if direction = 1 then
        (if index < length ya \<and> index < length computed_boundary_value
         then residuals_loop ya yb rest (computed_boundary_value[index := ya ! index])
         else Inl IndexError)
      else
        (if index < length yb \<and> index < length computed_boundary_value
         then residuals_loop ya yb rest (computed_boundary_value[index := yb ! index])
         else Inl IndexError))"

definition residuals_raman ::
  "real list \<Rightarrow> real list \<Rightarrow> real list \<Rightarrow> int list \<Rightarrow> py_error + real list" where
  "residuals_raman ya yb power_spectrum prop_direct =
     (case residuals_loop ya yb (enumerate 0 prop_direct) (replicate (length ya) 0) of
        Inl e \<Rightarrow> Inl e
      | Inr computed_boundary_value \<Rightarrow> np_sub power_spectrum computed_boundary_value)"

section \<open>The right-hand side of the Raman equations\<close>

text \<open>
  \<^verbatim>\<open>_ode_raman\<close>: \<open>power_spectrum\<close> has one row per frequency slice and one column per
  z sample. The element for slice \<open>f_ind\<close> and sample \<open>z_ind\<close> is computed from the slices
  \<^verbatim>\<open>[f_ind+1:]\<close> (gain) and \<^verbatim>\<open>[:f_ind]\<close> (loss).
\<close>

definition ode_raman_element ::
  "real list list \<Rightarrow> real list \<Rightarrow> real list \<Rightarrow> real list list \<Rightarrow> int list \<Rightarrow> nat \<Rightarrow> nat \<Rightarrow> real" where
  "ode_raman_element power_spectrum alphap_fiber freq_array cr_raman_matrix prop_direct f_ind z_ind =
     (let cr_raman = cr_raman_matrix ! f_ind;
          vibrational_loss = map (\<lambda>f. freq_array ! f_ind / f) (take f_ind freq_array);
          power_sample = power_spectrum ! f_ind ! z_ind;
          raman_gain = sum_list (map2 (*) (drop (f_ind + 1) cr_raman)
                                          (drop (f_ind + 1) (column power_spectrum z_ind)));
          raman_loss = sum_list (map2 (*) (map2 (*) vibrational_loss (take f_ind cr_raman))
                                          (take f_ind (column power_spectrum z_ind)))
      in of_int (prop_direct ! f_ind) * (- (alphap_fiber ! f_ind) + raman_gain - raman_loss)
           * power_sample)"

definition ode_raman ::
  "real list \<Rightarrow> real list list \<Rightarrow> real list \<Rightarrow> real list \<Rightarrow> real list list \<Rightarrow> int list
     \<Rightarrow> real list list" where
  "ode_raman z power_spectrum alphap_fiber freq_array cr_raman_matrix prop_direct =
     map (\<lambda>f_ind.
            map (\<lambda>z_ind. ode_raman_element power_spectrum alphap_fiber freq_array
                            cr_raman_matrix prop_direct f_ind z_ind)
                [0..<length (power_spectrum ! f_ind)])
         [0..<length power_spectrum]"

text \<open>The shapes \<^verbatim>\<open>_ode_raman\<close> expects: \<open>n\<close> slices and \<open>m\<close> samples along z.\<close>

definition ode_shapes ::
  "nat \<Rightarrow> nat \<Rightarrow> real list list \<Rightarrow> real list \<Rightarrow> real list \<Rightarrow> real list list \<Rightarrow> int list \<Rightarrow> bool" where
  "ode_shapes n m power_spectrum alphap_fiber freq_array cr_raman_matrix prop_direct \<longleftrightarrow>
     length power_spectrum = n \<and> list_all (\<lambda>row. length row = m) power_spectrum \<and>
     length alphap_fiber = n \<and> length freq_array = n \<and>
     length cr_raman_matrix = n \<and> list_all (\<lambda>row. length row = n) cr_raman_matrix \<and>
     length prop_direct = n"

section \<open>Library functions used by the noise integration\<close>

text \<open>
  \<^verbatim>\<open>scipy.integrate.cumtrapz(y, x, initial=0)\<close> is
  \<^verbatim>\<open>concatenate([0], cumsum(diff(x) * (y[1:] + y[:-1]) / 2))\<close>; when \<open>x\<close> is given the
  argument \<^verbatim>\<open>dx\<close> is not used.
\<close>

definition np_diff :: "real list \<Rightarrow> real list" where
  "np_diff xs = map2 (\<lambda>a b. b - a) (butlast xs) (tl xs)"

fun cumsum_from :: "real \<Rightarrow> real list \<Rightarrow> real list" where
  "cumsum_from acc [] = []"
| "cumsum_from acc (x # xs) = (acc + x) # cumsum_from (acc + x) xs"

definition cumsum :: "real list \<Rightarrow> real list" where
  "cumsum xs = cumsum_from 0 xs"

definition cumtrapz :: "real list \<Rightarrow> real list \<Rightarrow> real list" where
  "cumtrapz y x =
     0 # cumsum (map2 (\<lambda>d s. d * s / 2) (np_diff x) (map2 (+) (tl y) (butlast y)))"

text \<open>\<^verbatim>\<open>np.sum(M, axis=0)\<close> of a matrix with \<open>m\<close> columns (a matrix without rows sums to
  \<open>m\<close> zeros), and \<^verbatim>\<open>(w * M.transpose()).transpose()\<close>, which multiplies row \<open>j\<close> of
  \<open>M\<close> by \<open>w[j]\<close>.\<close>

definition sum_axis0 :: "nat \<Rightarrow> real list list \<Rightarrow> real list" where
  "sum_axis0 m M = map (\<lambda>z_ind. sum_list (column M z_ind)) [0..<m]"

definition scale_rows :: "real list \<Rightarrow> real list list \<Rightarrow> real list list" where
  "scale_rows w M = map2 (\<lambda>c row. map (\<lambda>p. c * p) row) w M"

text \<open>
  A float division whose divisor can be zero: numpy then gives \<^verbatim>\<open>inf\<close> or \<^verbatim>\<open>nan\<close>
  (with a warning, not an exception), which is \<open>None\<close> here. \<open>np_value\<close> reads a float as a
  real; for \<open>None\<close> it is the arbitrary value 0, and the theorems below make sure that no
  such value is read.
\<close>

definition np_divide :: "real \<Rightarrow> real \<Rightarrow> real option" where
  "np_divide a b = (if b = 0 then None else Some (a / b))"

definition np_value :: "real option \<Rightarrow> real" where
  "np_value v = (case v of None \<Rightarrow> 0 | Some r \<Rightarrow> r)"

text \<open>The constants of \<^verbatim>\<open>scipy.constants\<close> (CODATA 2018, exact SI values).\<close>

definition Planck_constant :: real where
  "Planck_constant = 662607015 / 10 ^ 42"

definition Boltzmann_constant :: real where
  "Boltzmann_constant = 1380649 / 10 ^ 29"

section \<open>The noise integration\<close>

text \<open>
  \<^verbatim>\<open>_ase_int\<close>. The row \<open>eta\<close> is computed for every slice, its entry at the slice's own
  index included; the sums read \<^verbatim>\<open>[f_ind+1:]\<close> and \<^verbatim>\<open>[:f_ind]\<close> only.
\<close>

definition ase_eta :: "real list \<Rightarrow> real option list" where
  "ase_eta freq_diff_row =
     (let h = Planck_constant; Kb = Boltzmann_constant; T = 298
      in map (\<lambda>d. np_divide 1 (exp ((h * d) / (Kb * T)) - 1)) freq_diff_row)"

definition ase_B ::
  "nat \<Rightarrow> real list list \<Rightarrow> real list \<Rightarrow> real option list \<Rightarrow> real \<Rightarrow> nat \<Rightarrow> real list" where
  "ase_B m raman_matrix cr_raman eta f_ase f_ind =
     (let h = Planck_constant; Bn = 32 * 10 ^ 9
      in sum_axis0 m
           (map (map (\<lambda>v. v * h * f_ase * Bn))
              (scale_rows (map2 (*) (drop (f_ind + 1) cr_raman)
                                    (map (\<lambda>e. 1 + np_value e) (drop (f_ind + 1) eta)))
                          (drop (f_ind + 1) raman_matrix))))"

definition ase_int_A ::
  "real list \<Rightarrow> real list \<Rightarrow> real list \<Rightarrow> real list \<Rightarrow> real list list \<Rightarrow> nat \<Rightarrow> real list" where
  "ase_int_A z_array alphap_fiber freq_array cr_raman int_pump f_ind =
     (let f_ase = freq_array ! f_ind;
          vibrational_loss = map (\<lambda>f. f_ase / f) (take f_ind freq_array);
          int_alpha = map (\<lambda>z. - (alphap_fiber ! f_ind) * z) z_array;
          int_rlossv = sum_axis0 (length z_array)
                         (scale_rows (map2 (*) (take f_ind cr_raman) vibrational_loss)
                                     (take f_ind int_pump));
          int_rgainv = sum_axis0 (length z_array)
                         (scale_rows (drop (f_ind + 1) cr_raman) (drop (f_ind + 1) int_pump))
      in map2 (+) (map2 (+) int_alpha int_rgainv) int_rlossv)"

definition ase_int_row ::
  "real list \<Rightarrow> real list list \<Rightarrow> real list \<Rightarrow> real list \<Rightarrow> real list list \<Rightarrow> real list list
     \<Rightarrow> real list \<Rightarrow> real list list \<Rightarrow> nat \<Rightarrow> real list" where
  "ase_int_row z_array raman_matrix alphap_fiber freq_array cr_raman_matrix freq_diff pase0
       int_pump f_ind =
     (let f_ase = freq_array ! f_ind;
          cr_raman = cr_raman_matrix ! f_ind;
          eta = ase_eta (freq_diff ! f_ind);
          int_A = ase_int_A z_array alphap_fiber freq_array cr_raman int_pump f_ind;
          B = ase_B (length z_array) raman_matrix cr_raman eta f_ase f_ind;
          F = map (\<lambda>a. pase0 ! f_ind * exp a) int_A;
          C = map2 (*) (map exp int_A)
                (cumtrapz (map2 (*) B (map (\<lambda>a. exp (- a)) int_A)) z_array)
      in map2 (+) F C)"

definition ase_int ::
  "real list \<Rightarrow> real list list \<Rightarrow> real list \<Rightarrow> real list \<Rightarrow> real list list \<Rightarrow> real list list
     \<Rightarrow> real list \<Rightarrow> real list list" where
  "ase_int z_array raman_matrix alphap_fiber freq_array cr_raman_matrix freq_diff pase0 =
     (let int_pump = map (\<lambda>row. cumtrapz row z_array) raman_matrix
      in map (ase_int_row z_array raman_matrix alphap_fiber freq_array cr_raman_matrix freq_diff
                pase0 int_pump)
             [0..<length freq_array])"

text \<open>\<^verbatim>\<open>abs(freq_array - np.reshape(freq_array, (len(freq_array), 1)))\<close>, as both getters
  compute it.\<close>

definition freq_diff_matrix :: "real list \<Rightarrow> real list list" where
  "freq_diff_matrix freq_array = map (\<lambda>fi. map (\<lambda>fj. \<bar>fj - fi\<bar>) freq_array) freq_array"

text \<open>The shapes \<^verbatim>\<open>_ase_int\<close> expects: \<open>n\<close> slices and \<open>m\<close> samples along z.\<close>

definition ase_shapes ::
  "nat \<Rightarrow> nat \<Rightarrow> real list \<Rightarrow> real list list \<Rightarrow> real list \<Rightarrow> real list \<Rightarrow> real list list
     \<Rightarrow> real list list \<Rightarrow> bool" where
  "ase_shapes n m z_array raman_matrix alphap_fiber freq_array cr_raman_matrix freq_diff \<longleftrightarrow>
     length z_array = m \<and>
     length raman_matrix = n \<and> list_all (\<lambda>row. length row = m) raman_matrix \<and>
     length alphap_fiber = n \<and> length freq_array = n \<and>
     length cr_raman_matrix = n \<and> list_all (\<lambda>row. length row = n) cr_raman_matrix \<and>
     length freq_diff = n \<and> list_all (\<lambda>row. length row = n) freq_diff"

section \<open>Division by zero in double precision\<close>

text \<open>
  Whether the source term of the noise is \<^verbatim>\<open>inf\<close> or \<^verbatim>\<open>nan\<close> is a question about
  floating point. For it \<^verbatim>\<open>np.exp\<close> is taken as the double nearest to the exponential,
  ties to even: the doubles next to 1 are \<^verbatim>\<open>1 - 2**-53\<close> and \<^verbatim>\<open>1 + 2**-52\<close>, so the
  result is 1.0, and \<^verbatim>\<open>np.exp(x) - 1\<close> is 0, exactly when the exponential lies between
  \<^verbatim>\<open>1 - 2**-54\<close> and \<^verbatim>\<open>1 + 2**-53\<close>. The rounding of the other operations and
  overflow are not modelled.
\<close>

definition rounds_to_one :: "real \<Rightarrow> bool" where
  "rounds_to_one v \<longleftrightarrow> 1 - 1 / 2 ^ 54 \<le> v \<and> v \<le> 1 + 1 / 2 ^ 53"

definition np_exp :: "real \<Rightarrow> real" where
  "np_exp x = (if rounds_to_one (exp x) then 1 else exp x)"

text \<open>The line of \<^verbatim>\<open>_ase_int\<close> that computes \<open>eta\<close>, with this \<^verbatim>\<open>np.exp\<close>.\<close>

definition ase_eta_float64 :: "real list \<Rightarrow> real option list" where
  "ase_eta_float64 freq_diff_row =
     (let h = Planck_constant; Kb = Boltzmann_constant; T = 298
      in map (\<lambda>d. np_divide 1 (np_exp ((h * d) / (Kb * T)) - 1)) freq_diff_row)"

text \<open>
  Floats that can be \<^verbatim>\<open>inf\<close> or \<^verbatim>\<open>nan\<close> (\<open>None\<close>): a sum or a product with such an
  operand is \<^verbatim>\<open>inf\<close> or \<^verbatim>\<open>nan\<close> again.
\<close>

definition np_lift2 :: "(real \<Rightarrow> real \<Rightarrow> real) \<Rightarrow> real option \<Rightarrow> real option \<Rightarrow> real option" where
  "np_lift2 op a b =
     (case a of None \<Rightarrow> None
      | Some x \<Rightarrow> (case b of None \<Rightarrow> None | Some y \<Rightarrow> Some (op x y)))"

definition np_sum :: "real option list \<Rightarrow> real option" where
  "np_sum vs = foldr (np_lift2 (+)) vs (Some 0)"

text \<open>The line of \<^verbatim>\<open>_ase_int\<close> that computes \<open>B\<close>, on such floats: the weights
  \<^verbatim>\<open>cr_raman[f_ind+1:] * (1 + eta[f_ind+1:])\<close>, the products with the rows of the power
  and with \<^verbatim>\<open>h\<close>, \<^verbatim>\<open>f_ase\<close> and \<^verbatim>\<open>Bn\<close>, and the sum over the slices.\<close>

definition ase_B_float64 ::
  "nat \<Rightarrow> real list list \<Rightarrow> real list \<Rightarrow> real option list \<Rightarrow> real \<Rightarrow> nat \<Rightarrow> real option list" where
  "ase_B_float64 m raman_matrix cr_raman eta f_ase f_ind =
     (let h = Planck_constant; Bn = 32 * 10 ^ 9;
          weights = map2 (\<lambda>c e. np_lift2 (*) (Some c) (np_lift2 (+) (Some 1) e))
                      (drop (f_ind + 1) cr_raman) (drop (f_ind + 1) eta);
          terms = map2 (\<lambda>w row.
                          map (\<lambda>p. np_lift2 (*)
                                     (np_lift2 (*) (np_lift2 (*) (np_lift2 (*) w (Some p)) (Some h))
                                        (Some f_ase))
                                     (Some Bn))
                              row)
                    weights (drop (f_ind + 1) raman_matrix)
      in map (\<lambda>z_ind. np_sum (map (\<lambda>row. row ! z_ind) terms)) [0..<m])"

section \<open>The inputs and the state of the solver\<close>

text \<open>
  The named tuples that the callers assemble, with the fields that \<^verbatim>\<open>RamanSolver\<close> reads
  (\<^verbatim>\<open>frequency\<close>, \<^verbatim>\<open>power\<close> and \<^verbatim>\<open>length\<close> are prefixed, since several tuples share these
  names). The power of a channel is its \<^verbatim>\<open>power.signal\<close>.
\<close>

record AttenuationCoefficient =
  alpha_power :: "real list"
  alpha_frequency :: "real list"

record RamanCoefficient =
  raman_cr :: "real list"
  raman_frequency :: "real list"

record FiberInformation =
  fiber_length :: real
  attenuation_coefficient :: AttenuationCoefficient
  raman_coefficient :: RamanCoefficient

record Channel =
  channel_frequency :: real
  channel_power :: real

record RamanPump =
  pump_power :: real
  pump_frequency :: real
  propagation_direction :: int

record SpectralInformation =
  carriers :: "Channel list"

record RamanPumpInformation =
  raman_pumps :: "RamanPump list"

record RamanSolverInformation =
  z_resolution :: real
  tolerance :: real
  verbose :: nat

text \<open>
  What \<^verbatim>\<open>scipy.integrate.solve_bvp\<close> returns: the final mesh, the solution on it, and
  the outcome of the iteration (\<^verbatim>\<open>status\<close> 0 and \<^verbatim>\<open>success\<close> true when it converged). The
  getter renames \<^verbatim>\<open>x\<close> and \<^verbatim>\<open>y\<close> to \<^verbatim>\<open>z\<close> and \<^verbatim>\<open>power\<close>, adds \<^verbatim>\<open>frequency\<close> and
  \<^verbatim>\<open>rho\<close>, and leaves the other attributes on the object.
\<close>

record bvp_result =
  sol_x :: "real list"
  sol_y :: "real list list"
  sol_status :: nat
  sol_success :: bool

record raman_profile =
  profile_frequency :: "real list"
  profile_z :: "real list"
  profile_rho :: "real option list list"
  profile_power :: "real list list"
  profile_status :: nat
  profile_success :: bool

text \<open>The object that the example script expects from \<^verbatim>\<open>raman_ase_solution\<close>: it reads
  \<^verbatim>\<open>z\<close>, \<^verbatim>\<open>frequency\<close> and \<^verbatim>\<open>power\<close> of it.\<close>

record ase_profile =
  ase_z :: "real list"
  ase_frequency :: "real list"
  ase_power :: "real list list"

text \<open>
  The plotted noise power is in dBm, \<^verbatim>\<open>10 * np.log10(p) + 30\<close>. \<^verbatim>\<open>np.log10\<close> gives
  \<^verbatim>\<open>-inf\<close> at 0 and \<^verbatim>\<open>nan\<close> at a negative number (with a warning, not an exception),
  and multiplying by 10 and adding 30 leaves both as they are.
\<close>

datatype np_float = Finite real | Minus_inf | Not_a_number

definition np_dBm :: "real \<Rightarrow> np_float" where
  "np_dBm p =
     (if 0 < p then Finite (10 * log 10 p + 30)
      else if p = 0 then Minus_inf
      else Not_a_number)"

text \<open>What the process prints and plots: \<^verbatim>\<open>print\<close>, \<^verbatim>\<open>plot_surface(X, Y, Z)\<close> with the two
  axes of the mesh grid, \<^verbatim>\<open>plt.plot(x, y)\<close> and \<^verbatim>\<open>plt.show()\<close>.\<close>

datatype effect =
  Print string
  | Plot_surface "real list" "real list" "np_float list list"
  | Plot "real list" "np_float list list"
  | Show

text \<open>The attributes of a \<^verbatim>\<open>RamanSolver\<close> (an attribute \<^verbatim>\<open>_a\<close> is the field \<open>s_a\<close>; \<open>None\<close>
  is Python's \<^verbatim>\<open>None\<close>), together with the output of the process so far.\<close>

record RamanSolver =
  s_fiber_information :: "FiberInformation option"
  s_solver_params :: "RamanSolverInformation option"
  s_spectral_information :: "SpectralInformation option"
  s_raman_pump_information :: "RamanPumpInformation option"
  s_raman_bvp_solution :: "raman_profile option"
  s_raman_ase_solution :: "ase_profile option"
  effects :: "effect list"

definition RamanSolver_init :: "FiberInformation option \<Rightarrow> RamanSolver" where
  "RamanSolver_init fiber_information =
     \<lparr>s_fiber_information = fiber_information, s_solver_params = None,
      s_spectral_information = None, s_raman_pump_information = None,
      s_raman_bvp_solution = None, s_raman_ase_solution = None, effects = []\<rparr>"

text \<open>The four property setters.\<close>

definition set_fiber_information :: "FiberInformation option \<Rightarrow> RamanSolver \<Rightarrow> RamanSolver" where
  "set_fiber_information fiber_information self =
     self\<lparr>s_fiber_information := fiber_information, s_raman_bvp_solution := None\<rparr>"

definition set_spectral_information :: "SpectralInformation option \<Rightarrow> RamanSolver \<Rightarrow> RamanSolver" where
  "set_spectral_information spectral_information self =
     self\<lparr>s_spectral_information := spectral_information, s_raman_bvp_solution := None\<rparr>"

definition set_raman_pump_information ::
  "RamanPumpInformation option \<Rightarrow> RamanSolver \<Rightarrow> RamanSolver" where
  "set_raman_pump_information raman_pump_information self =
     self\<lparr>s_raman_pump_information := raman_pump_information\<rparr>"

definition set_solver_params :: "RamanSolverInformation option \<Rightarrow> RamanSolver \<Rightarrow> RamanSolver" where
  "set_solver_params solver_params self =
     self\<lparr>s_solver_params := solver_params, s_raman_bvp_solution := None\<rparr>"

definition emit :: "effect list \<Rightarrow> RamanSolver \<Rightarrow> RamanSolver" where
  "emit es self = self\<lparr>effects := effects self @ es\<rparr>"

text \<open>Sequencing of steps that can raise.\<close>

definition bind_result :: "py_error + 'a \<Rightarrow> ('a \<Rightarrow> py_error + 'b) \<Rightarrow> py_error + 'b" where
  "bind_result r k = (case r of Inl e \<Rightarrow> Inl e | Inr v \<Rightarrow> k v)"

section \<open>The power spectrum\<close>

text \<open>
  Modelled from the spec: \<^verbatim>\<open>raman.utilities.compute_power_spectrum\<close> is not among the
  source files. By section 4.1 of the specification it returns the powers, the
  frequencies and the directions of the signal channels followed by those of the pumps,
  in the order the caller gives them, the channels with direction +1 and the pumps with
  their declared direction. The spectral input is required; the pumps are optional.
\<close>

definition compute_power_spectrum ::
  "SpectralInformation option \<Rightarrow> RamanPumpInformation option
     \<Rightarrow> py_error + (real list \<times> real list \<times> int list)" where
  "compute_power_spectrum spectral_information raman_pump_information =
     (case spectral_information of
        None \<Rightarrow> Inl AttributeError
      | Some si \<Rightarrow>
          (let pumps = (case raman_pump_information of None \<Rightarrow> [] | Some rp \<Rightarrow> raman_pumps rp)
           in Inr (map channel_power (carriers si) @ map pump_power pumps,
                   map channel_frequency (carriers si) @ map pump_frequency pumps,
                   replicate (length (carriers si)) 1 @ map propagation_direction pumps)))"

section \<open>Interpolation of the coefficient tables\<close>

text \<open>
  \<^verbatim>\<open>scipy.interpolate.interp1d(x, y)\<close> with its defaults: linear, the samples sorted by
  \<open>x\<close>, and a ValueError for a query outside the sampled range. For a query it takes the
  insertion index of \<^verbatim>\<open>searchsorted\<close>, clipped to \<open>1 .. len - 1\<close>, and interpolates
  between the sample below and the sample at that index.
\<close>

definition interp1d :: "real list \<Rightarrow> real list \<Rightarrow> py_error + (real \<times> real) list" where
  "interp1d x y =
     (if length x \<noteq> length y \<or> x = [] then Inl ValueError
      else Inr (sort_key fst (zip x y)))"

definition searchsorted :: "real list \<Rightarrow> real \<Rightarrow> nat" where
  "searchsorted xs v = length (filter (\<lambda>x. x < v) xs)"

definition interp1d_evaluate :: "(real \<times> real) list \<Rightarrow> real \<Rightarrow> real" where
  "interp1d_evaluate tab x_new =
     (let xs = map fst tab; ys = map snd tab;
          idx = min (max (searchsorted xs x_new) 1) (length xs - 1);
          lo = idx - 1; hi = idx;
          slope = (ys ! hi - ys ! lo) / (xs ! hi - xs ! lo)
      in slope * (x_new - xs ! lo) + ys ! lo)"

definition out_of_bounds :: "(real \<times> real) list \<Rightarrow> real \<Rightarrow> bool" where
  "out_of_bounds tab x_new \<longleftrightarrow> x_new < fst (hd tab) \<or> fst (last tab) < x_new"

definition interp1d_call :: "(real \<times> real) list \<Rightarrow> real list \<Rightarrow> py_error + real list" where
  "interp1d_call tab x_new =
     (if list_ex (out_of_bounds tab) x_new then Inl ValueError
      else Inr (map (interp1d_evaluate tab) x_new))"

definition interp1d_call_matrix ::
  "(real \<times> real) list \<Rightarrow> real list list \<Rightarrow> py_error + real list list" where
  "interp1d_call_matrix tab x_new =
     (if list_ex (list_ex (out_of_bounds tab)) x_new then Inl ValueError
      else Inr (map (map (interp1d_evaluate tab)) x_new))"

text \<open>
  \<^verbatim>\<open>a * np.ones(shape)\<close> for a table \<open>a\<close> of fewer than two samples: one sample is broadcast
  to every entry; no sample broadcasts against at most one slice only.
\<close>

definition times_ones :: "real list \<Rightarrow> nat \<Rightarrow> py_error + real list" where
  "times_ones a n =
     (case a of
        [v] \<Rightarrow> Inr (replicate n v)
      | _ \<Rightarrow> if n \<le> 1 then Inr [] else Inl ValueError)"

definition times_ones_matrix :: "real list \<Rightarrow> nat \<Rightarrow> py_error + real list list" where
  "times_ones_matrix a n =
     (case a of
        [v] \<Rightarrow> Inr (replicate n (replicate n v))
      | _ \<Rightarrow> if n \<le> 1 then Inr (replicate n []) else Inl ValueError)"

text \<open>The lines that both getters share: the attenuation of every slice, the matrix of
  frequency offsets and the Raman coefficient of every pair of slices.\<close>

definition fiber_coefficients ::
  "FiberInformation \<Rightarrow> real list \<Rightarrow> py_error + (real list \<times> real list list \<times> real list list)" where
  "fiber_coefficients fiber freq_array =
     (let attenuation = attenuation_coefficient fiber;
          raman = raman_coefficient fiber
      in bind_result
           (if 2 \<le> length (alpha_power attenuation)
            then bind_result (interp1d (alpha_frequency attenuation) (alpha_power attenuation))
                   (\<lambda>interp_alphap. interp1d_call interp_alphap freq_array)
            else times_ones (alpha_power attenuation) (length freq_array))
           (\<lambda>alphap_fiber.
              let freq_diff = freq_diff_matrix freq_array
              in bind_result
                   (if 2 \<le> length (raman_cr raman)
                    then bind_result (interp1d (raman_frequency raman) (raman_cr raman))
                           (\<lambda>interp_cr. interp1d_call_matrix interp_cr freq_diff)
                    else times_ones_matrix (raman_cr raman) (length freq_array))
                   (\<lambda>cr. Inr (alphap_fiber, freq_diff, cr))))"

section \<open>The boundary-value solve\<close>

text \<open>\<^verbatim>\<open>np.arange(0, stop, step)\<close>: the multiples of \<open>step\<close> below \<open>stop\<close>; a zero step
  raises.\<close>

definition np_arange :: "real \<Rightarrow> real \<Rightarrow> py_error + real list" where
  "np_arange stop step =
     (if step = 0 then Inl ValueError
      else Inr (map (\<lambda>i. real i * step) [0..<nat \<lceil>stop / step\<rceil>]))"

definition initial_guess_raman ::
  "real list \<Rightarrow> real list \<Rightarrow> real list \<Rightarrow> int list \<Rightarrow> real list list" where
  "initial_guess_raman z power_spectrum alphap_fiber prop_direct =
     map (\<lambda>(f_index, power_slice).
            if prop_direct ! f_index = 1
            then map (\<lambda>zz. exp (- (alphap_fiber ! f_index) * zz) * power_slice) z
            else map (\<lambda>zz. exp (- (alphap_fiber ! f_index) * zz) * power_slice) (rev z))
         (enumerate 0 power_spectrum)"

text \<open>
  \<^verbatim>\<open>np.sqrt((y.transpose() / power_spectrum).transpose())\<close>: row \<open>i\<close> of the solution is
  divided by the target power of slice \<open>i\<close>. A zero target power or a negative ratio gives
  \<^verbatim>\<open>nan\<close> or \<^verbatim>\<open>inf\<close>, which is \<open>None\<close>. The solver returns as many rows as the guess
  has, one per slice; any other shape is an error here.
\<close>

definition sqrt_ratio :: "real \<Rightarrow> real \<Rightarrow> real option" where
  "sqrt_ratio y p = (if p = 0 \<or> y / p < 0 then None else Some (sqrt (y / p)))"

definition rho_of :: "real list list \<Rightarrow> real list \<Rightarrow> py_error + real option list list" where
  "rho_of y power_spectrum =
     (if length y = length power_spectrum
      then Inr (map2 (\<lambda>row p. map (\<lambda>v. sqrt_ratio v p) row) y power_spectrum)
      else Inl ValueError)"

text \<open>
  \<^verbatim>\<open>scipy.integrate.solve_bvp\<close> is a parameter of the model: it takes the right-hand
  side, the boundary residual, the initial mesh, the initial guess, the tolerance and the
  verbosity, and returns a result or raises. Its own console output is not modelled.
\<close>

type_synonym bvp_solver =
  "(real list \<Rightarrow> real list list \<Rightarrow> real list list) \<Rightarrow> (real list \<Rightarrow> real list \<Rightarrow> py_error + real list)
     \<Rightarrow> real list \<Rightarrow> real list list \<Rightarrow> real \<Rightarrow> nat \<Rightarrow> py_error + bvp_result"

text \<open>The body of the getter \<^verbatim>\<open>raman_bvp_solution\<close> from the power spectrum on.\<close>

definition compute_raman_profile ::
  "bvp_solver \<Rightarrow> FiberInformation \<Rightarrow> RamanSolverInformation
     \<Rightarrow> real list \<times> real list \<times> int list \<Rightarrow> py_error + raman_profile" where
  "compute_raman_profile solve_bvp fiber params spectrum =
     (case spectrum of (power_spectrum, freq_array, prop_direct) \<Rightarrow>
        bind_result (fiber_coefficients fiber freq_array) (\<lambda>(alphap_fiber, freq_diff, cr).
        bind_result (np_arange (fiber_length fiber + 1) (z_resolution params)) (\<lambda>z.
          let ode_function = (\<lambda>z p. ode_raman z p alphap_fiber freq_array cr prop_direct);
              boundary_residual = (\<lambda>ya yb. residuals_raman ya yb power_spectrum prop_direct);
              initial_guess_conditions = initial_guess_raman z power_spectrum alphap_fiber prop_direct
          in bind_result (solve_bvp ode_function boundary_residual z initial_guess_conditions
                            (tolerance params) (verbose params)) (\<lambda>raman_bvp_solution.
             bind_result (rho_of (sol_y raman_bvp_solution) power_spectrum) (\<lambda>rho.
               Inr \<lparr>profile_frequency = freq_array, profile_z = sol_x raman_bvp_solution,
                    profile_rho = rho, profile_power = sol_y raman_bvp_solution,
                    profile_status = sol_status raman_bvp_solution,
                    profile_success = sol_success raman_bvp_solution\<rparr>)))))"

text \<open>
  The getter \<^verbatim>\<open>raman_bvp_solution\<close>: a cached solution is returned as it is; otherwise
  the attributes are read (an attribute of \<^verbatim>\<open>None\<close> raises AttributeError), the solution
  is computed, stored in \<^verbatim>\<open>_raman_bvp_solution\<close> and returned. The result of
  \<^verbatim>\<open>solve_bvp\<close> is not inspected.
\<close>

definition raman_bvp_solution ::
  "bvp_solver \<Rightarrow> RamanSolver \<Rightarrow> (py_error + raman_profile) \<times> RamanSolver" where
  "raman_bvp_solution solve_bvp self =
     (case s_raman_bvp_solution self of
        Some solution \<Rightarrow> (Inr solution, self)
      | None \<Rightarrow>
          (case s_fiber_information self of
             None \<Rightarrow> (Inl AttributeError, self)
           | Some fiber \<Rightarrow>
               (case s_solver_params self of
                  None \<Rightarrow> (Inl AttributeError, self)
                | Some params \<Rightarrow>
                    (let self1 = (if verbose params \<noteq> 0
                                  then emit [Print ''Start computing fiber Raman profile''] self
                                  else self)
                     in case bind_result
                               (compute_power_spectrum (s_spectral_information self)
                                  (s_raman_pump_information self))
                               (compute_raman_profile solve_bvp fiber params) of
                          Inl e \<Rightarrow> (Inl e, self1)
                        | Inr solution \<Rightarrow>
                            (Inr solution, self1\<lparr>s_raman_bvp_solution := Some solution\<rparr>)))))"

section \<open>The noise getter\<close>

text \<open>
  The getter \<^verbatim>\<open>raman_ase_solution\<close>. It reads \<^verbatim>\<open>self.raman_bvp_solution\<close> twice; the
  second read returns what the first one stored. It converts the noise power to dBm
  (\<open>np_dBm\<close>: the noise power is 0, and the plotted value \<^verbatim>\<open>-inf\<close>, at the first grid
  point of every slice and along the whole last slice), draws two figures, shows them and
  prints 1. The assignment to \<^verbatim>\<open>_raman_ase_solution\<close> is commented out in
  the source, so the getter returns that attribute as it was.
\<close>

definition raman_ase_solution ::
  "bvp_solver \<Rightarrow> RamanSolver \<Rightarrow> (py_error + ase_profile option) \<times> RamanSolver" where
  "raman_ase_solution solve_bvp self =
     (case s_raman_ase_solution self of
        Some solution \<Rightarrow> (Inr (Some solution), self)
      | None \<Rightarrow>
          (case s_fiber_information self of
             None \<Rightarrow> (Inl AttributeError, self)
           | Some fiber \<Rightarrow>
               (case s_solver_params self of
                  None \<Rightarrow> (Inl AttributeError, self)
                | Some params \<Rightarrow>
                    (let self1 = (if verbose params \<noteq> 0
                                  then emit [Print ''Start computing fiber Raman ASE''] self
                                  else self)
                     in case bind_result
                               (compute_power_spectrum (s_spectral_information self)
                                  (s_raman_pump_information self))
                               (\<lambda>(power_spectrum, freq_array, prop_direct).
                                  bind_result (fiber_coefficients fiber freq_array)
                                    (\<lambda>coefficients. Inr (freq_array, coefficients))) of
                          Inl e \<Rightarrow> (Inl e, self1)
                        | Inr (freq_array, alphap_fiber, freq_diff, cr) \<Rightarrow>
                            (case raman_bvp_solution solve_bvp self1 of
                               (Inl e, self2) \<Rightarrow> (Inl e, self2)
                             | (Inr solution, self2) \<Rightarrow>
                                 (let z_array = profile_z solution;
                                      pase0 = replicate (length freq_array) 0;
                                      power_aselin = ase_int z_array (profile_power solution)
                                                       alphap_fiber freq_array cr freq_diff pase0;
                                      power_ase = map (map np_dBm) power_aselin;
                                      X = map (\<lambda>v. v * (1 / 10 ^ 3)) z_array;
                                      Y = map (\<lambda>v. v * (1 / 10 ^ 12)) freq_array;
                                      self3 = emit [Plot_surface X Y power_ase, Plot X power_ase,
                                                    Show, Print ''1''] self2
                                  in (Inr (s_raman_ase_solution self3), self3)))))))"

text \<open>
  A solver for concrete runs: it hands back the initial mesh and the initial guess with the
  given status (0: converged). Without attenuation and without Raman coupling the guess
  is constant along z and solves the boundary-value problem exactly.
\<close>

definition returning_guess :: "nat \<Rightarrow> bvp_solver" where
  "returning_guess status =
     (\<lambda>ode_function boundary_residual z initial_guess tol verb.
        Inr \<lparr>sol_x = z, sol_y = initial_guess, sol_status = status,
             sol_success = (status = 0)\<rparr>)"

text \<open>
  Concrete inputs in the manner of the example script: a fiber with single-sample tables
  (no attenuation, no Raman coupling), one channel, and a solver object set up as
  \<^verbatim>\<open>main\<close> of the script does, before any pumps are given.
\<close>

definition example_fiber :: FiberInformation where
  "example_fiber =
     \<lparr>fiber_length = 1,
      attenuation_coefficient = \<lparr>alpha_power = [0], alpha_frequency = [1]\<rparr>,
      raman_coefficient = \<lparr>raman_cr = [0], raman_frequency = [0]\<rparr>\<rparr>"

definition example_params :: RamanSolverInformation where
  "example_params = \<lparr>z_resolution = 1, tolerance = 1 / 10 ^ 8, verbose = 0\<rparr>"

definition example_solver :: "real \<Rightarrow> RamanSolver" where
  "example_solver pch =
     set_solver_params (Some example_params)
       (set_raman_pump_information (Some \<lparr>raman_pumps = []\<rparr>)
          (set_spectral_information
             (Some \<lparr>carriers = [\<lparr>channel_frequency = 1, channel_power = pch\<rparr>]\<rparr>)
             (RamanSolver_init (Some example_fiber))))"

definition example_pumps :: RamanPumpInformation where
  "example_pumps =
     \<lparr>raman_pumps = [\<lparr>pump_power = 1, pump_frequency = 2, propagation_direction = - 1\<rparr>]\<rparr>"



section \<open>The closed form of the specification\<close>

text \<open>
  These definitions follow the words of the specification, not the code: the trapezoidal
  integral from the first grid point to grid point \<open>k\<close>, the Bose-Einstein factor
  \<open>\<eta>\<close> at the reference temperature of 298 K, the source term \<open>B\<close> with the noise
  bandwidth of 32 GHz, the exponent \<open>A\<close> of the integrating factor, and the closed form
  \<open>exp A\<close> times the trapezoidal integral of \<open>B exp (- A)\<close>. They are compared with
  \<^verbatim>\<open>_ase_int\<close> below.
\<close>

definition trapz :: "real list \<Rightarrow> real list \<Rightarrow> nat \<Rightarrow> real" where
  "trapz y x k = (\<Sum>i<k. (x ! (i + 1) - x ! i) * (y ! (i + 1) + y ! i) / 2)"

definition spec_eta :: "real \<Rightarrow> real" where
  "spec_eta df = 1 / (exp (Planck_constant * df / (Boltzmann_constant * 298)) - 1)"

definition spec_B ::
  "nat \<Rightarrow> real list list \<Rightarrow> real list \<Rightarrow> real list list \<Rightarrow> real list list \<Rightarrow> nat \<Rightarrow> nat \<Rightarrow> real" where
  "spec_B n P freq cr fd f k =
     Planck_constant * freq ! f * (32 * 10 ^ 9)
       * (\<Sum>j = f + 1..<n. cr ! f ! j * (1 + spec_eta (fd ! f ! j)) * P ! j ! k)"

definition spec_A ::
  "nat \<Rightarrow> real list \<Rightarrow> real list list \<Rightarrow> real list \<Rightarrow> real list \<Rightarrow> real list list \<Rightarrow> nat \<Rightarrow> nat \<Rightarrow> real" where
  "spec_A n z P alpha freq cr f k =
     - (alpha ! f) * z ! k
       + (\<Sum>j<f. freq ! f / freq ! j * cr ! f ! j * trapz (P ! j) z k)
       + (\<Sum>j = f + 1..<n. cr ! f ! j * trapz (P ! j) z k)"

definition spec_ase ::
  "nat \<Rightarrow> real list \<Rightarrow> real list list \<Rightarrow> real list \<Rightarrow> real list \<Rightarrow> real list list \<Rightarrow> real list list
     \<Rightarrow> nat \<Rightarrow> nat \<Rightarrow> real" where
  "spec_ase n z P alpha freq cr fd f k =
     exp (spec_A n z P alpha freq cr f k)
       * (\<Sum>i<k. (z ! (i + 1) - z ! i)
                  * (spec_B n P freq cr fd f (i + 1) * exp (- spec_A n z P alpha freq cr f (i + 1))
                     + spec_B n P freq cr fd f i * exp (- spec_A n z P alpha freq cr f i)) / 2)"

section \<open>Properties of the boundary residual\<close>

lemma residuals_loop_enumerate:
  "k + length ds = n \<Longrightarrow> length ya = n \<Longrightarrow> length yb = n \<Longrightarrow> length cbv = n \<Longrightarrow>
   \<exists>r. residuals_loop ya yb (enumerate k ds) cbv = Inr r \<and> length r = n \<and>
       (\<forall>i<n. r ! i = (if k \<le> i then (if ds ! (i - k) = 1 then ya ! i else yb ! i) else cbv ! i))"
proof (induction ds arbitrary: k cbv)
  case Nil
  then show ?case by simp
next
  case (Cons d ds)
  let ?v = "if d = 1 then ya ! k else yb ! k"
  have k: "k < n" using Cons.prems by simp
  have step: "residuals_loop ya yb (enumerate k (d # ds)) cbv
                = residuals_loop ya yb (enumerate (Suc k) ds) (cbv[k := ?v])"
    using Cons.prems k by simp
  have "Suc k + length ds = n" using Cons.prems by simp
  moreover have "length (cbv[k := ?v]) = n" using Cons.prems by simp
  ultimately obtain r where r: "residuals_loop ya yb (enumerate (Suc k) ds) (cbv[k := ?v]) = Inr r"
      "length r = n"
      "\<forall>i<n. r ! i = (if Suc k \<le> i then (if ds ! (i - Suc k) = 1 then ya ! i else yb ! i)
                        else (cbv[k := ?v]) ! i)"
    using Cons.IH [of "Suc k" "cbv[k := ?v]"] Cons.prems(2,3) by blast
  have "\<forall>i<n. r ! i = (if k \<le> i then (if (d # ds) ! (i - k) = 1 then ya ! i else yb ! i) else cbv ! i)"
  proof (intro allI impI)
    fix i assume i: "i < n"
    consider "i < k" | "i = k" | "k < i" by linarith
    then show "r ! i = (if k \<le> i then (if (d # ds) ! (i - k) = 1 then ya ! i else yb ! i) else cbv ! i)"
    proof cases
      case 1 then show ?thesis using r(3) i by simp
    next
      case 2 then show ?thesis using r(3) i Cons.prems(4) by simp
    next
      case 3
      then have "(d # ds) ! (i - k) = ds ! (i - Suc k)" by (simp add: nth_Cons')
      then show ?thesis using r(3) i 3 by simp
    qed
  qed
  then show ?case using step r(1,2) by simp
qed

lemma residuals_raman_entries:
  assumes "length ya = n" "length yb = n" "length power_spectrum = n" "length prop_direct = n"
  shows "\<exists>r. residuals_raman ya yb power_spectrum prop_direct = Inr r \<and> length r = n \<and>
           (\<forall>i<n. r ! i = power_spectrum ! i - (if prop_direct ! i = 1 then ya ! i else yb ! i))"
proof -
  obtain c where c: "residuals_loop ya yb (enumerate 0 prop_direct) (replicate (length ya) 0) = Inr c"
      "length c = n"
      "\<forall>i<n. c ! i = (if prop_direct ! i = 1 then ya ! i else yb ! i)"
    using residuals_loop_enumerate [of 0 prop_direct n ya yb "replicate (length ya) 0"] assms
    by auto
  have "residuals_raman ya yb power_spectrum prop_direct = Inr (map2 (-) power_spectrum c)"
    using c(1,2) assms(3) by (simp add: residuals_raman_def np_sub_def)
  moreover have "\<forall>i<n. map2 (-) power_spectrum c ! i
                   = power_spectrum ! i - (if prop_direct ! i = 1 then ya ! i else yb ! i)"
    using c(2,3) assms(3) by simp
  ultimately show ?thesis using c(2) assms(3) by simp
qed

text \<open>
  Claim C2. For slices \<open>i\<close> below the common length \<open>n\<close> of the four arrays,
  \<^verbatim>\<open>_residuals_raman\<close> returns normally and its entry \<open>i\<close> is the target power of the
  slice minus the candidate solution's value at the first end of the interval (\<open>ya\<close>, z = 0)
  when the slice's direction is +1, and minus its value at the other end (\<open>yb\<close>)
  otherwise: forward and backward slices are handled in one vector.
\<close>

theorem residuals_raman_value:
  assumes "length ya = n" "length yb = n" "length power_spectrum = n" "length prop_direct = n"
  shows "\<exists>r. residuals_raman ya yb power_spectrum prop_direct = Inr r \<and> length r = n \<and>
           (\<forall>i<n. r ! i = power_spectrum ! i - (if prop_direct ! i = 1 then ya ! i else yb ! i))"
  using assms by (rule residuals_raman_entries)

theorem residuals_raman_value_witness:
  "\<exists>r. residuals_raman [1, 2] [3, 4] [10, 20] [1, -1] = Inr r \<and> length r = 2 \<and>
       (\<forall>i<2. r ! i = [10, 20] ! i - (if [1, -1 :: int] ! i = 1 then [1, 2] ! i else [3, 4] ! i))"
  using residuals_raman_value [of "[1, 2]" 2 "[3, 4]" "[10, 20]" "[1, -1]"] by simp


section \<open>Properties of the right-hand side\<close>

lemma sum_list_drop_nth:
  fixes zs :: "real list"
  shows "sum_list (drop k zs) = (\<Sum>j = k..<length zs. zs ! j)"
proof (cases "k \<le> length zs")
  case True
  have "sum_list (drop k zs) = (\<Sum>i = 0..<length zs - k. zs ! (k + i))"
    by (simp add: sum_list_sum_nth)
  also have "\<dots> = (\<Sum>j = k..<length zs. zs ! j)"
    using sum.shift_bounds_nat_ivl [of "\<lambda>j. zs ! j" 0 k "length zs - k"] True
    by (simp add: add.commute)
  finally show ?thesis .
next
  case False
  then show ?thesis by simp
qed

lemma sum_list_take_nth:
  fixes zs :: "real list"
  assumes "k \<le> length zs"
  shows "sum_list (take k zs) = (\<Sum>j<k. zs ! j)"
  using assms by (simp add: sum_list_sum_nth atLeast0LessThan min_def)

lemma raman_gain_sum:
  fixes cr_raman col :: "real list"
  assumes "length cr_raman = n" "length col = n"
  shows "sum_list (map2 (*) (drop k cr_raman) (drop k col)) = (\<Sum>j = k..<n. cr_raman ! j * col ! j)"
proof -
  have "map2 (*) (drop k cr_raman) (drop k col) = drop k (map2 (*) cr_raman col)"
    by (simp add: drop_zip drop_map)
  then have "sum_list (map2 (*) (drop k cr_raman) (drop k col))
               = (\<Sum>j = k..<length (map2 (*) cr_raman col). map2 (*) cr_raman col ! j)"
    by (simp only: sum_list_drop_nth)
  also have "\<dots> = (\<Sum>j = k..<n. cr_raman ! j * col ! j)"
    using assms by (intro sum.cong) auto
  finally show ?thesis .
qed

lemma raman_loss_sum:
  fixes cr_raman col freq_array :: "real list"
  assumes "length cr_raman = n" "length col = n" "length freq_array = n" "k \<le> n"
  shows "sum_list (map2 (*) (map2 (*) (map (\<lambda>f. c / f) (take k freq_array)) (take k cr_raman))
                           (take k col))
           = (\<Sum>j<k. c / freq_array ! j * cr_raman ! j * col ! j)"
proof -
  let ?ws = "map2 (*) (map2 (*) (map (\<lambda>f. c / f) freq_array) cr_raman) col"
  have "map2 (*) (map2 (*) (map (\<lambda>f. c / f) (take k freq_array)) (take k cr_raman)) (take k col)
          = take k ?ws"
    by (simp add: take_zip take_map)
  moreover have "k \<le> length ?ws" using assms by simp
  ultimately have "sum_list (map2 (*) (map2 (*) (map (\<lambda>f. c / f) (take k freq_array)) (take k cr_raman))
                           (take k col)) = (\<Sum>j<k. ?ws ! j)"
    by (simp only: sum_list_take_nth)
  also have "\<dots> = (\<Sum>j<k. c / freq_array ! j * cr_raman ! j * col ! j)"
    using assms by (intro sum.cong) auto
  finally show ?thesis .
qed

text \<open>
  Claim C1. For every slice \<open>i\<close> and every z sample, the element computed by
  \<^verbatim>\<open>_ode_raman\<close> is the direction of the slice times the bracket (minus its attenuation,
  plus the gain from the slices of higher index weighted 1:1, minus the loss into the
  slices of lower index weighted by the frequency ratio) times the slice's own power.
\<close>

theorem ode_raman_rhs:
  assumes shapes: "ode_shapes n m power_spectrum alphap_fiber freq_array cr_raman_matrix prop_direct"
    and i: "i < n" and z: "z_ind < m"
    and freq: "\<forall>f \<in> set freq_array. f \<noteq> 0"
  shows "ode_raman zs power_spectrum alphap_fiber freq_array cr_raman_matrix prop_direct ! i ! z_ind
           = of_int (prop_direct ! i)
             * (- (alphap_fiber ! i)
                + (\<Sum>j = i + 1..<n. cr_raman_matrix ! i ! j * power_spectrum ! j ! z_ind)
                - (\<Sum>j<i. freq_array ! i / freq_array ! j * cr_raman_matrix ! i ! j
                             * power_spectrum ! j ! z_ind))
             * power_spectrum ! i ! z_ind"
proof -
  have len: "length power_spectrum = n" "length freq_array = n" "length cr_raman_matrix = n"
    using shapes by (simp_all add: ode_shapes_def)
  have row: "length (power_spectrum ! i) = m"
    using shapes i by (simp add: ode_shapes_def list_all_length)
  have crow: "length (cr_raman_matrix ! i) = n"
    using shapes i by (simp add: ode_shapes_def list_all_length)
  have col: "length (column power_spectrum z_ind) = n"
    using len by (simp add: column_def)
  have colnth: "\<And>j. j < n \<Longrightarrow> column power_spectrum z_ind ! j = power_spectrum ! j ! z_ind"
    using len by (simp add: column_def)
  have gain: "sum_list (map2 (*) (drop (i + 1) (cr_raman_matrix ! i))
                                 (drop (i + 1) (column power_spectrum z_ind)))
                = (\<Sum>j = i + 1..<n. cr_raman_matrix ! i ! j * power_spectrum ! j ! z_ind)"
    using raman_gain_sum [OF crow col, of "i + 1"] colnth by simp
  have loss: "sum_list (map2 (*) (map2 (*) (map (\<lambda>f. freq_array ! i / f) (take i freq_array))
                                           (take i (cr_raman_matrix ! i)))
                                 (take i (column power_spectrum z_ind)))
                = (\<Sum>j<i. freq_array ! i / freq_array ! j * cr_raman_matrix ! i ! j
                             * power_spectrum ! j ! z_ind)"
    using raman_loss_sum [OF crow col len(2), of i "freq_array ! i"] i colnth by simp
  have "ode_raman zs power_spectrum alphap_fiber freq_array cr_raman_matrix prop_direct ! i ! z_ind
          = ode_raman_element power_spectrum alphap_fiber freq_array cr_raman_matrix prop_direct i z_ind"
    using len i row z by (simp add: ode_raman_def)
  then show ?thesis
    unfolding ode_raman_element_def Let_def gain loss by simp
qed


theorem ode_raman_rhs_witness:
  "ode_raman [0] [[2], [3]] [1/10, 1/5] [4, 8] [[0, 5], [5, 0]] [1, -1] ! 1 ! 0
     = - (- (1/5) - 8 / 4 * 5 * 2) * 3"
proof -
  have s: "ode_shapes 2 1 [[2], [3]] [1/10, 1/5] [4, 8] [[0, 5], [5, 0]] [1, -1]"
    by (simp add: ode_shapes_def)
  have f: "\<forall>f \<in> set [4, 8 :: real]. f \<noteq> 0" by simp
  show ?thesis
    using ode_raman_rhs [OF s _ _ f, of 1 0 "[0]"] by simp
qed

section \<open>Properties of the noise integration\<close>

lemma length_cumsum_from: "length (cumsum_from acc xs) = length xs"
  by (induction xs arbitrary: acc) simp_all

lemma cumsum_from_nth:
  "k < length xs \<Longrightarrow> cumsum_from acc xs ! k = acc + (\<Sum>i\<le>k. xs ! i)"
proof (induction xs arbitrary: acc k)
  case Nil
  then show ?case by simp
next
  case (Cons x xs)
  show ?case
  proof (cases k)
    case 0
    then show ?thesis by simp
  next
    case (Suc k')
    then have "k' < length xs" using Cons.prems by simp
    then have "cumsum_from (acc + x) xs ! k' = acc + x + (\<Sum>i\<le>k'. xs ! i)"
      by (rule Cons.IH)
    moreover have "(\<Sum>i\<le>Suc k'. (x # xs) ! i) = x + (\<Sum>i\<le>k'. xs ! i)"
      by (simp add: sum.atMost_Suc_shift del: sum.atMost_Suc)
    ultimately show ?thesis using Suc by simp
  qed
qed

lemma length_np_diff: "length (np_diff xs) = length xs - 1"
  by (simp add: np_diff_def)

lemma np_diff_nth: "Suc i < length xs \<Longrightarrow> np_diff xs ! i = xs ! (i + 1) - xs ! i"
  by (simp add: np_diff_def nth_butlast nth_tl)

lemma length_cumtrapz:
  "length x = length y \<Longrightarrow> y \<noteq> [] \<Longrightarrow> length (cumtrapz y x) = length y"
  by (simp add: cumtrapz_def cumsum_def length_cumsum_from length_np_diff)

lemma cumtrapz_0: "cumtrapz y x ! 0 = 0"
  by (simp add: cumtrapz_def)

lemma cumtrapz_nth:
  assumes "length x = length y" "k < length y"
  shows "cumtrapz y x ! k = trapz y x k"
proof (cases k)
  case 0
  then show ?thesis by (simp add: cumtrapz_def trapz_def)
next
  case (Suc k')
  let ?ts = "map2 (\<lambda>d s. d * s / 2) (np_diff x) (map2 (+) (tl y) (butlast y))"
  have len: "length ?ts = length y - 1" using assms by (simp add: length_np_diff)
  have k': "k' < length ?ts" using Suc assms len by simp
  have nth: "\<And>i. i \<le> k' \<Longrightarrow> ?ts ! i = (x ! (i + 1) - x ! i) * (y ! (i + 1) + y ! i) / 2"
  proof -
    fix i assume "i \<le> k'"
    then have i: "Suc i < length y" using Suc assms by simp
    then show "?ts ! i = (x ! (i + 1) - x ! i) * (y ! (i + 1) + y ! i) / 2"
      using assms by (simp add: length_np_diff np_diff_nth nth_butlast nth_tl)
  qed
  have "cumtrapz y x ! k = cumsum_from 0 ?ts ! k'"
    using Suc by (simp add: cumtrapz_def cumsum_def)
  also have "\<dots> = (\<Sum>i\<le>k'. ?ts ! i)"
    using cumsum_from_nth [OF k', of 0] by simp
  also have "\<dots> = (\<Sum>i\<le>k'. (x ! (i + 1) - x ! i) * (y ! (i + 1) + y ! i) / 2)"
    by (intro sum.cong) (simp_all add: nth)
  also have "\<dots> = trapz y x k"
    using Suc by (simp add: trapz_def lessThan_Suc_atMost)
  finally show ?thesis .
qed

lemma length_sum_axis0: "length (sum_axis0 m M) = m"
  by (simp add: sum_axis0_def)

lemma sum_axis0_nth: "k < m \<Longrightarrow> sum_axis0 m M ! k = (\<Sum>j<length M. M ! j ! k)"
  by (simp add: sum_axis0_def column_def sum_list_sum_nth atLeast0LessThan)

lemma length_ase_int_A:
  "length (ase_int_A z_array alphap_fiber freq_array cr_raman int_pump f_ind) = length z_array"
  by (simp add: ase_int_A_def Let_def length_sum_axis0)

lemma length_ase_B: "length (ase_B m raman_matrix cr_raman eta f_ase f_ind) = m"
  by (simp add: ase_B_def Let_def length_sum_axis0)

lemma length_ase_int_row:
  "z_array \<noteq> [] \<Longrightarrow>
   length (ase_int_row z_array raman_matrix alphap_fiber freq_array cr_raman_matrix freq_diff
             pase0 int_pump f_ind) = length z_array"
proof -
  assume z: "z_array \<noteq> []"
  let ?A = "ase_int_A z_array alphap_fiber freq_array (cr_raman_matrix ! f_ind) int_pump f_ind"
  let ?B = "ase_B (length z_array) raman_matrix (cr_raman_matrix ! f_ind)
              (ase_eta (freq_diff ! f_ind)) (freq_array ! f_ind) f_ind"
  let ?g = "map2 (*) ?B (map (\<lambda>a. exp (- a)) ?A)"
  have g: "length ?g = length z_array"
    by (simp add: length_ase_int_A length_ase_B)
  then have "?g \<noteq> []" using z by auto
  then have "length (cumtrapz ?g z_array) = length z_array"
    using length_cumtrapz [of z_array ?g] g by simp
  then show ?thesis
    by (simp add: ase_int_row_def Let_def length_ase_int_A)
qed

text \<open>
  Claim C8. With the zero initial condition that \<^verbatim>\<open>raman_ase_solution\<close> passes, the
  power computed by \<^verbatim>\<open>_ase_int\<close> is 0 at the first z grid point, for every slice and
  every power profile; the propagation directions are not an argument of \<^verbatim>\<open>_ase_int\<close>.
\<close>

theorem ase_int_zero_at_origin:
  assumes shapes: "ase_shapes n m z_array raman_matrix alphap_fiber freq_array cr_raman_matrix freq_diff"
    and f: "f < n" and m: "0 < m"
    and freq: "\<forall>x \<in> set freq_array. x \<noteq> 0"
  shows "ase_int z_array raman_matrix alphap_fiber freq_array cr_raman_matrix freq_diff
           (replicate (length freq_array) 0) ! f ! 0 = 0"
proof -
  have len: "length freq_array = n" "length z_array = m"
    using shapes by (simp_all add: ase_shapes_def)
  let ?int_pump = "map (\<lambda>row. cumtrapz row z_array) raman_matrix"
  let ?A = "ase_int_A z_array alphap_fiber freq_array (cr_raman_matrix ! f) ?int_pump f"
  let ?B = "ase_B (length z_array) raman_matrix (cr_raman_matrix ! f) (ase_eta (freq_diff ! f))
              (freq_array ! f) f"
  let ?I = "cumtrapz (map2 (*) ?B (map (\<lambda>a. exp (- a)) ?A)) z_array"
  have lA: "0 < length ?A" using len m by (simp add: length_ase_int_A)
  have lI: "0 < length ?I" by (simp add: cumtrapz_def)
  have "ase_int z_array raman_matrix alphap_fiber freq_array cr_raman_matrix freq_diff
           (replicate (length freq_array) 0) ! f
          = ase_int_row z_array raman_matrix alphap_fiber freq_array cr_raman_matrix freq_diff
              (replicate (length freq_array) 0) ?int_pump f"
    using f len by (simp add: ase_int_def)
  also have "\<dots> ! 0 = replicate (length freq_array) 0 ! f * exp (?A ! 0) + exp (?A ! 0) * ?I ! 0"
    using lA lI by (simp add: ase_int_row_def Let_def)
  also have "\<dots> = 0"
    using f len by (simp add: cumtrapz_0)
  finally show ?thesis .
qed


lemma length_scale_rows: "length (scale_rows w M) = min (length w) (length M)"
  by (simp add: scale_rows_def)

lemma scale_rows_nth:
  "j < length w \<Longrightarrow> j < length M \<Longrightarrow> k < length (M ! j) \<Longrightarrow>
   scale_rows w M ! j ! k = w ! j * M ! j ! k"
  by (simp add: scale_rows_def)

lemma sum_shift_lessThan:
  fixes g :: "nat \<Rightarrow> real"
  assumes "a \<le> n"
  shows "(\<Sum>j<n - a. g (a + j)) = (\<Sum>j = a..<n. g j)"
proof -
  have "(\<Sum>j = a..<n. g j) = (\<Sum>j = 0 + a..<(n - a) + a. g j)"
    using assms by simp
  also have "\<dots> = (\<Sum>j = 0..<n - a. g (j + a))"
    by (rule sum.shift_bounds_nat_ivl)
  finally show ?thesis
    by (simp add: atLeast0LessThan add.commute)
qed

lemma sum_axis0_scale_drop:
  assumes w: "length w = n" and M: "length M = n" and rows: "list_all (\<lambda>row. length row = m) M"
    and k: "k < m" and a: "a \<le> n"
  shows "sum_axis0 m (scale_rows (drop a w) (drop a M)) ! k = (\<Sum>j = a..<n. w ! j * M ! j ! k)"
proof -
  have "sum_axis0 m (scale_rows (drop a w) (drop a M)) ! k
          = (\<Sum>j<n - a. scale_rows (drop a w) (drop a M) ! j ! k)"
    using k w M by (simp add: sum_axis0_nth length_scale_rows)
  also have "\<dots> = (\<Sum>j<n - a. w ! (a + j) * M ! (a + j) ! k)"
  proof (intro sum.cong refl)
    fix j assume "j \<in> {..<n - a}"
    then have j: "a + j < n" by auto
    then have "length (M ! (a + j)) = m" using rows M by (simp add: list_all_length)
    then show "scale_rows (drop a w) (drop a M) ! j ! k = w ! (a + j) * M ! (a + j) ! k"
      using j w M k a by (simp add: scale_rows_nth)
  qed
  also have "\<dots> = (\<Sum>j = a..<n. w ! j * M ! j ! k)"
    using sum_shift_lessThan [OF a, of "\<lambda>j. w ! j * M ! j ! k"] .
  finally show ?thesis .
qed

lemma sum_axis0_scale_take:
  assumes w: "length w = a" and M: "length M = n" and rows: "list_all (\<lambda>row. length row = m) M"
    and k: "k < m" and a: "a \<le> n"
  shows "sum_axis0 m (scale_rows w (take a M)) ! k = (\<Sum>j<a. w ! j * M ! j ! k)"
proof -
  have "sum_axis0 m (scale_rows w (take a M)) ! k = (\<Sum>j<a. scale_rows w (take a M) ! j ! k)"
    using k w M a by (simp add: sum_axis0_nth length_scale_rows)
  also have "\<dots> = (\<Sum>j<a. w ! j * M ! j ! k)"
  proof (intro sum.cong refl)
    fix j assume "j \<in> {..<a}"
    then have j: "j < a" by simp
    then have "length (M ! j) = m" using rows M a by (simp add: list_all_length)
    then show "scale_rows w (take a M) ! j ! k = w ! j * M ! j ! k"
      using j w M k a by (simp add: scale_rows_nth)
  qed
  finally show ?thesis .
qed

lemma int_pump_shape:
  assumes "length raman_matrix = n" "list_all (\<lambda>row. length row = m) raman_matrix"
    "length z_array = m" "0 < m"
  shows "list_all (\<lambda>row. length row = m) (map (\<lambda>row. cumtrapz row z_array) raman_matrix)"
proof -
  have "length (cumtrapz row z_array) = m" if "row \<in> set raman_matrix" for row
  proof -
    have "length row = m" using that assms(2) by (simp add: list_all_iff)
    moreover from this have "row \<noteq> []" using assms(4) by auto
    ultimately show ?thesis
      using length_cumtrapz [of z_array row] assms(3) by simp
  qed
  then show ?thesis by (simp add: list_all_iff)
qed

lemma ase_int_A_nth:
  assumes shapes: "ase_shapes n m z_array raman_matrix alphap_fiber freq_array cr_raman_matrix freq_diff"
    and f: "f < n" and k: "k < m"
  shows "ase_int_A z_array alphap_fiber freq_array (cr_raman_matrix ! f)
           (map (\<lambda>row. cumtrapz row z_array) raman_matrix) f ! k
         = spec_A n z_array raman_matrix alphap_fiber freq_array cr_raman_matrix f k"
proof -
  let ?ip = "map (\<lambda>row. cumtrapz row z_array) raman_matrix"
  let ?cr = "cr_raman_matrix ! f"
  let ?vl = "map (\<lambda>x. freq_array ! f / x) (take f freq_array)"
  have len: "length z_array = m" "length raman_matrix = n" "length freq_array = n"
    and rows: "list_all (\<lambda>row. length row = m) raman_matrix"
    using shapes by (simp_all add: ase_shapes_def)
  have crow: "length ?cr = n"
    using shapes f by (simp add: ase_shapes_def list_all_length)
  have ip_len: "length ?ip = n" using len by simp
  have ip_rows: "list_all (\<lambda>row. length row = m) ?ip"
    using int_pump_shape [OF len(2) rows len(1)] k by simp
  have ip_nth: "\<And>j. j < n \<Longrightarrow> ?ip ! j ! k = trapz (raman_matrix ! j) z_array k"
  proof -
    fix j assume j: "j < n"
    then have "length (raman_matrix ! j) = m" using rows len by (simp add: list_all_length)
    then show "?ip ! j ! k = trapz (raman_matrix ! j) z_array k"
      using j len k by (simp add: cumtrapz_nth)
  qed
  have gain: "sum_axis0 (length z_array) (scale_rows (drop (f + 1) ?cr) (drop (f + 1) ?ip)) ! k
                = (\<Sum>j = f + 1..<n. ?cr ! j * trapz (raman_matrix ! j) z_array k)"
  proof -
    have "sum_axis0 m (scale_rows (drop (f + 1) ?cr) (drop (f + 1) ?ip)) ! k
            = (\<Sum>j = f + 1..<n. ?cr ! j * ?ip ! j ! k)"
      using sum_axis0_scale_drop [OF crow ip_len ip_rows k, of "f + 1"] f by simp
    also have "\<dots> = (\<Sum>j = f + 1..<n. ?cr ! j * trapz (raman_matrix ! j) z_array k)"
      by (intro sum.cong refl) (simp add: ip_nth)
    finally show ?thesis using len by simp
  qed
  have loss: "sum_axis0 (length z_array) (scale_rows (map2 (*) (take f ?cr) ?vl) (take f ?ip)) ! k
                = (\<Sum>j<f. freq_array ! f / freq_array ! j * ?cr ! j
                             * trapz (raman_matrix ! j) z_array k)"
  proof -
    have w: "length (map2 (*) (take f ?cr) ?vl) = f" using crow len f by simp
    have "sum_axis0 m (scale_rows (map2 (*) (take f ?cr) ?vl) (take f ?ip)) ! k
            = (\<Sum>j<f. map2 (*) (take f ?cr) ?vl ! j * ?ip ! j ! k)"
      using sum_axis0_scale_take [OF w ip_len ip_rows k] f by simp
    also have "\<dots> = (\<Sum>j<f. freq_array ! f / freq_array ! j * ?cr ! j
                             * trapz (raman_matrix ! j) z_array k)"
    proof (intro sum.cong refl)
      fix j assume "j \<in> {..<f}"
      then have j: "j < f" by simp
      then have "map2 (*) (take f ?cr) ?vl ! j = ?cr ! j * (freq_array ! f / freq_array ! j)"
        using crow len f by simp
      then show "map2 (*) (take f ?cr) ?vl ! j * ?ip ! j ! k
                   = freq_array ! f / freq_array ! j * ?cr ! j * trapz (raman_matrix ! j) z_array k"
        using ip_nth [of j] j f by simp
    qed
    finally show ?thesis using len by simp
  qed
  have "ase_int_A z_array alphap_fiber freq_array ?cr ?ip f ! k
          = - (alphap_fiber ! f) * z_array ! k
            + sum_axis0 (length z_array) (scale_rows (drop (f + 1) ?cr) (drop (f + 1) ?ip)) ! k
            + sum_axis0 (length z_array) (scale_rows (map2 (*) (take f ?cr) ?vl) (take f ?ip)) ! k"
    using k len by (simp add: ase_int_A_def Let_def length_sum_axis0)
  then show ?thesis
    unfolding gain loss spec_A_def by simp
qed

lemma np_value_np_divide: "np_value (np_divide a b) = a / b"
  by (simp add: np_value_def np_divide_def)

lemma ase_B_nth:
  assumes shapes: "ase_shapes n m z_array raman_matrix alphap_fiber freq_array cr_raman_matrix freq_diff"
    and f: "f < n" and k: "k < m"
  shows "ase_B (length z_array) raman_matrix (cr_raman_matrix ! f) (ase_eta (freq_diff ! f))
           (freq_array ! f) f ! k
         = spec_B n raman_matrix freq_array cr_raman_matrix freq_diff f k"
proof -
  let ?cr = "cr_raman_matrix ! f"
  let ?eta = "ase_eta (freq_diff ! f)"
  let ?w = "map2 (*) (drop (f + 1) ?cr) (map (\<lambda>e. 1 + np_value e) (drop (f + 1) ?eta))"
  let ?S = "scale_rows ?w (drop (f + 1) raman_matrix)"
  let ?c = "Planck_constant * freq_array ! f * (32 * 10 ^ 9)"
  have len: "length z_array = m" "length raman_matrix = n"
    and rows: "list_all (\<lambda>row. length row = m) raman_matrix"
    using shapes by (simp_all add: ase_shapes_def)
  have crow: "length ?cr = n"
    using shapes f by (simp add: ase_shapes_def list_all_length)
  have erow: "length ?eta = n"
    using shapes f by (simp add: ase_shapes_def list_all_length ase_eta_def)
  have eta_nth: "\<And>j. j < n \<Longrightarrow> np_value (?eta ! j) = spec_eta (freq_diff ! f ! j)"
    using erow by (simp add: ase_eta_def Let_def np_value_np_divide spec_eta_def)
  have lS: "length ?S = n - (f + 1)"
    using crow erow len by (simp add: length_scale_rows)
  have S_nth: "\<And>j. j < n - (f + 1) \<Longrightarrow>
                 ?S ! j ! k = ?cr ! (f + 1 + j) * (1 + spec_eta (freq_diff ! f ! (f + 1 + j)))
                                * raman_matrix ! (f + 1 + j) ! k"
  proof -
    fix j assume j: "j < n - (f + 1)"
    then have j': "f + 1 + j < n" by simp
    then have "length (raman_matrix ! (f + 1 + j)) = m"
      using rows len by (simp add: list_all_length)
    moreover have "?w ! j = ?cr ! (f + 1 + j) * (1 + spec_eta (freq_diff ! f ! (f + 1 + j)))"
      using j crow erow eta_nth [OF j'] by simp
    ultimately show "?S ! j ! k = ?cr ! (f + 1 + j) * (1 + spec_eta (freq_diff ! f ! (f + 1 + j)))
                                * raman_matrix ! (f + 1 + j) ! k"
      using j crow erow len k by (simp add: scale_rows_nth)
  qed
  have S_len: "\<And>j. j < n - (f + 1) \<Longrightarrow> length (?S ! j) = m"
  proof -
    fix j assume j: "j < n - (f + 1)"
    then have "f + 1 + j < n" by simp
    then have "length (raman_matrix ! (f + 1 + j)) = m"
      using rows len by (simp add: list_all_length)
    then show "length (?S ! j) = m"
      using j crow erow len by (simp add: scale_rows_def)
  qed
  let ?g = "\<lambda>v. v * Planck_constant * freq_array ! f * (32 * 10 ^ 9)"
  have "ase_B (length z_array) raman_matrix ?cr ?eta (freq_array ! f) f ! k
          = (\<Sum>j<n - (f + 1). map (map ?g) ?S ! j ! k)"
    using k len lS by (simp add: ase_B_def Let_def sum_axis0_nth)
  also have "\<dots> = (\<Sum>j<n - (f + 1). ?S ! j ! k * Planck_constant * freq_array ! f * (32 * 10 ^ 9))"
  proof (intro sum.cong refl)
    fix j assume "j \<in> {..<n - (f + 1)}"
    then have j: "j < n - (f + 1)" by simp
    then show "map (map ?g) ?S ! j ! k = ?S ! j ! k * Planck_constant * freq_array ! f * (32 * 10 ^ 9)"
      using lS S_len [OF j] k by simp
  qed
  also have "\<dots> = (\<Sum>j<n - (f + 1). ?c * (?cr ! (f + 1 + j)
                        * (1 + spec_eta (freq_diff ! f ! (f + 1 + j)))
                        * raman_matrix ! (f + 1 + j) ! k))"
  proof (intro sum.cong refl)
    fix j assume "j \<in> {..<n - (f + 1)}"
    then have j: "j < n - (f + 1)" by simp
    show "?S ! j ! k * Planck_constant * freq_array ! f * (32 * 10 ^ 9)
            = ?c * (?cr ! (f + 1 + j) * (1 + spec_eta (freq_diff ! f ! (f + 1 + j)))
                      * raman_matrix ! (f + 1 + j) ! k)"
      unfolding S_nth [OF j] by (simp only: mult_ac)
  qed
  also have "\<dots> = ?c * (\<Sum>j<n - (f + 1). ?cr ! (f + 1 + j)
                        * (1 + spec_eta (freq_diff ! f ! (f + 1 + j)))
                        * raman_matrix ! (f + 1 + j) ! k)"
    by (simp only: sum_distrib_left)
  also have "(\<Sum>j<n - (f + 1). ?cr ! (f + 1 + j) * (1 + spec_eta (freq_diff ! f ! (f + 1 + j)))
                        * raman_matrix ! (f + 1 + j) ! k)
             = (\<Sum>j = f + 1..<n. ?cr ! j * (1 + spec_eta (freq_diff ! f ! j)) * raman_matrix ! j ! k)"
    using sum_shift_lessThan [of "f + 1" n
        "\<lambda>j. ?cr ! j * (1 + spec_eta (freq_diff ! f ! j)) * raman_matrix ! j ! k"] f
    by simp
  finally show ?thesis by (simp add: spec_B_def)
qed

text \<open>
  Claim C7. With the zero initial condition, the row that \<^verbatim>\<open>_ase_int\<close> computes for
  slice \<open>f\<close> is, at every grid point, the closed form of the specification: \<open>exp A\<close>
  times the trapezoidal integral of \<open>B exp (- A)\<close>, where \<open>B\<close> sums over the slices of
  strictly higher index only and uses the Bose-Einstein factor at 298 K and the bandwidth
  of 32 GHz.
\<close>

theorem ase_int_closed_form:
  assumes shapes: "ase_shapes n m z_array raman_matrix alphap_fiber freq_array cr_raman_matrix freq_diff"
    and f: "f < n" and k: "k < m"
    and freq: "\<forall>x \<in> set freq_array. x \<noteq> 0"
    and offsets: "\<forall>j. f < j \<and> j < n \<longrightarrow> freq_diff ! f ! j \<noteq> 0"
  shows "ase_int z_array raman_matrix alphap_fiber freq_array cr_raman_matrix freq_diff
           (replicate (length freq_array) 0) ! f ! k
         = spec_ase n z_array raman_matrix alphap_fiber freq_array cr_raman_matrix freq_diff f k"
proof -
  have len: "length freq_array = n" "length z_array = m"
    using shapes by (simp_all add: ase_shapes_def)
  let ?ip = "map (\<lambda>row. cumtrapz row z_array) raman_matrix"
  let ?A = "ase_int_A z_array alphap_fiber freq_array (cr_raman_matrix ! f) ?ip f"
  let ?B = "ase_B (length z_array) raman_matrix (cr_raman_matrix ! f) (ase_eta (freq_diff ! f))
              (freq_array ! f) f"
  let ?g = "map2 (*) ?B (map (\<lambda>a. exp (- a)) ?A)"
  let ?sA = "spec_A n z_array raman_matrix alphap_fiber freq_array cr_raman_matrix f"
  let ?sB = "spec_B n raman_matrix freq_array cr_raman_matrix freq_diff f"
  have lA: "length ?A = m" using len by (simp add: length_ase_int_A)
  have lB: "length ?B = m" using len by (simp add: length_ase_B)
  have lg: "length ?g = m" using lA lB by simp
  have g_nth: "\<And>i. i < m \<Longrightarrow> ?g ! i = ?sB i * exp (- ?sA i)"
    using lA lB ase_int_A_nth [OF shapes f] ase_B_nth [OF shapes f] by simp
  have I: "cumtrapz ?g z_array ! k = trapz ?g z_array k"
    using cumtrapz_nth [of z_array ?g k] lg len k by simp
  have "?g \<noteq> []" using lg k by auto
  then have lI: "length (cumtrapz ?g z_array) = m"
    using length_cumtrapz [of z_array ?g] lg len by simp
  have T: "trapz ?g z_array k
             = (\<Sum>i<k. (z_array ! (i + 1) - z_array ! i)
                  * (?sB (i + 1) * exp (- ?sA (i + 1)) + ?sB i * exp (- ?sA i)) / 2)"
    unfolding trapz_def
  proof (intro sum.cong refl)
    fix i assume "i \<in> {..<k}"
    then have "i < m" "i + 1 < m" using k by auto
    then show "(z_array ! (i + 1) - z_array ! i) * (?g ! (i + 1) + ?g ! i) / 2
                 = (z_array ! (i + 1) - z_array ! i)
                     * (?sB (i + 1) * exp (- ?sA (i + 1)) + ?sB i * exp (- ?sA i)) / 2"
      by (simp only: g_nth)
  qed
  have "ase_int z_array raman_matrix alphap_fiber freq_array cr_raman_matrix freq_diff
           (replicate (length freq_array) 0) ! f
          = ase_int_row z_array raman_matrix alphap_fiber freq_array cr_raman_matrix freq_diff
              (replicate (length freq_array) 0) ?ip f"
    using f len by (simp add: ase_int_def)
  also have "\<dots> ! k = replicate (length freq_array) 0 ! f * exp (?A ! k)
                          + exp (?A ! k) * cumtrapz ?g z_array ! k"
    using lA lI k by (simp add: ase_int_row_def Let_def)
  also have "\<dots> = exp (?sA k) * trapz ?g z_array k"
    using f len I ase_int_A_nth [OF shapes f k] by simp
  finally show ?thesis
    unfolding T spec_ase_def .
qed


lemma ase_eta_nth:
  "j < length row \<Longrightarrow>
   ase_eta row ! j
     = np_divide 1 (exp (Planck_constant * (row ! j) / (Boltzmann_constant * 298)) - 1)"
  by (simp add: ase_eta_def Let_def)

lemma eta_denominator_zero_iff:
  "exp (Planck_constant * d / (Boltzmann_constant * 298)) - 1 = 0 \<longleftrightarrow> d = 0"
  by (simp add: Planck_constant_def Boltzmann_constant_def)

lemma freq_diff_matrix_nth:
  "i < length freq_array \<Longrightarrow> j < length freq_array \<Longrightarrow>
   freq_diff_matrix freq_array ! i ! j = \<bar>freq_array ! j - freq_array ! i\<bar>"
  by (simp add: freq_diff_matrix_def)

lemma length_freq_diff_matrix_row:
  "i < length freq_array \<Longrightarrow> length (freq_diff_matrix freq_array ! i) = length freq_array"
  by (simp add: freq_diff_matrix_def)

lemma np_sum_Some: "np_sum (map Some xs) = Some (sum_list xs)"
  by (induction xs) (simp_all add: np_sum_def np_lift2_def)

lemma rounds_to_one_exp_0: "rounds_to_one (exp 0)"
  by (simp add: rounds_to_one_def)

lemma not_rounds_to_one_neq: "\<not> rounds_to_one v \<Longrightarrow> v \<noteq> 1"
  by (auto simp: rounds_to_one_def)

lemma offset_millihertz:
  assumes "1 / 1000 \<le> d"
  shows "\<not> rounds_to_one (exp (Planck_constant * d / (Boltzmann_constant * 298)))"
proof -
  let ?x = "Planck_constant * d / (Boltzmann_constant * 298)"
  have "Planck_constant * (1 / 1000) / (Boltzmann_constant * 298) \<le> ?x"
    using assms by (simp add: Planck_constant_def Boltzmann_constant_def field_simps)
  moreover have "1 / 2 ^ 53 < Planck_constant * (1 / 1000) / (Boltzmann_constant * 298)"
    by (simp add: Planck_constant_def Boltzmann_constant_def)
  ultimately have "1 / 2 ^ 53 < ?x" by linarith
  moreover have "1 + ?x \<le> exp ?x" by (rule exp_ge_add_one_self)
  ultimately have "1 + 1 / 2 ^ 53 < exp ?x" by linarith
  then show ?thesis by (simp add: rounds_to_one_def)
qed

lemma offset_tenth_millihertz:
  "rounds_to_one (exp (Planck_constant * (1 / 10000) / (Boltzmann_constant * 298)))"
proof -
  let ?x = "Planck_constant * (1 / 10000) / (Boltzmann_constant * 298)"
  have x0: "0 \<le> ?x" by (simp add: Planck_constant_def Boltzmann_constant_def)
  have x1: "?x \<le> 1" by (simp add: Planck_constant_def Boltzmann_constant_def)
  have "exp ?x \<le> 1 + ?x + ?x\<^sup>2" using x0 x1 by (rule exp_bound)
  moreover have "1 + ?x + ?x\<^sup>2 \<le> 1 + 1 / 2 ^ 53"
    by (simp add: Planck_constant_def Boltzmann_constant_def power2_eq_square)
  ultimately have up: "exp ?x \<le> 1 + 1 / 2 ^ 53" by (rule order_trans)
  have "(1::real) - 1 / 2 ^ 54 \<le> 1" by simp
  moreover have "1 \<le> exp ?x" using x0 by (simp only: one_le_exp_iff)
  ultimately have lo: "1 - 1 / 2 ^ 54 \<le> exp ?x" by (rule order_trans)
  show ?thesis unfolding rounds_to_one_def using lo up by (rule conjI)
qed

lemma column_of_finite:
  assumes "\<forall>row\<in>set M. z < length row"
  shows "map (\<lambda>row. row ! z) (map (map Some) M) = map Some (map (\<lambda>row. row ! z) M)"
  using assms by simp

lemma terms_of_finite_weights:
  "map2 (\<lambda>w row.
           map (\<lambda>p. np_lift2 (*)
                      (np_lift2 (*) (np_lift2 (*) (np_lift2 (*) w (Some p)) (Some h)) (Some f_ase))
                      (Some Bn))
               row)
        (map Some ws) Ps
     = map (map Some) (map (map (\<lambda>v. v * h * f_ase * Bn)) (scale_rows ws Ps))"
  by (auto simp: map_zip_map scale_rows_def np_lift2_def)

lemma ase_B_float64_finite:
  assumes used: "drop (f + 1) eta = map Some es"
    and rows: "list_all (\<lambda>row. length row = m) raman_matrix"
  shows "ase_B_float64 m raman_matrix cr_raman eta f_ase f
           = map Some (ase_B m raman_matrix cr_raman eta f_ase f)"
proof -
  let ?crs = "drop (f + 1) cr_raman"
  let ?Ps = "drop (f + 1) raman_matrix"
  let ?g = "\<lambda>v. v * Planck_constant * f_ase * (32 * 10 ^ 9)"
  let ?ws = "map2 (\<lambda>c e. c * (1 + e)) ?crs es"
  let ?M = "map (map ?g) (scale_rows ?ws ?Ps)"
  have w_exact: "map2 (*) ?crs (map (\<lambda>e. 1 + np_value e) (drop (f + 1) eta)) = ?ws"
    unfolding used by (simp add: map_zip_map2 np_value_def comp_def)
  have w_float: "map2 (\<lambda>c e. np_lift2 (*) (Some c) (np_lift2 (+) (Some 1) e)) ?crs
                   (drop (f + 1) eta) = map Some ?ws"
    unfolding used by (auto simp: map_zip_map2 np_lift2_def)
  have terms: "map2 (\<lambda>w row.
                  map (\<lambda>p. np_lift2 (*)
                             (np_lift2 (*) (np_lift2 (*) (np_lift2 (*) w (Some p))
                                (Some Planck_constant)) (Some f_ase))
                             (Some (32 * 10 ^ 9)))
                      row)
                (map Some ?ws) ?Ps = map (map Some) ?M"
    by (rule terms_of_finite_weights)
  have len: "\<forall>row\<in>set ?M. length row = m"
  proof
    fix row assume "row \<in> set ?M"
    then obtain r where "r \<in> set ?Ps" "length row = length r"
      by (auto simp: scale_rows_def dest!: set_zip_rightD)
    moreover have "\<forall>r\<in>set raman_matrix. length r = m"
      using rows by (simp add: list_all_iff)
    ultimately show "length row = m"
      using set_drop_subset [of "f + 1" raman_matrix] by auto
  qed
  have "ase_B_float64 m raman_matrix cr_raman eta f_ase f
          = map (\<lambda>z_ind. np_sum (map (\<lambda>row. row ! z_ind) (map (map Some) ?M))) [0..<m]"
    unfolding ase_B_float64_def Let_def w_float terms ..
  also have "\<dots> = map (\<lambda>z_ind. Some (sum_list (map (\<lambda>row. row ! z_ind) ?M))) [0..<m]"
  proof (intro map_cong refl)
    fix z assume "z \<in> set [0..<m]"
    then have "\<forall>row\<in>set ?M. z < length row" using len by simp
    then have "map (\<lambda>row. row ! z) (map (map Some) ?M) = map Some (map (\<lambda>row. row ! z) ?M)"
      by (rule column_of_finite)
    then show "np_sum (map (\<lambda>row. row ! z) (map (map Some) ?M))
                 = Some (sum_list (map (\<lambda>row. row ! z) ?M))"
      by (simp only: np_sum_Some)
  qed
  also have "\<dots> = map Some (ase_B m raman_matrix cr_raman eta f_ase f)"
    unfolding ase_B_def Let_def w_exact by (simp add: sum_axis0_def column_def comp_def)
  finally show ?thesis .
qed

lemma ase_eta_float64_nth:
  "j < length row \<Longrightarrow>
   ase_eta_float64 row ! j
     = np_divide 1 (np_exp (Planck_constant * (row ! j) / (Boltzmann_constant * 298)) - 1)"
  by (simp add: ase_eta_float64_def Let_def)

lemma ase_B_float64_reads_higher_indices:
  assumes "length eta' = length eta"
    "\<forall>j. f < j \<and> j < length eta \<longrightarrow> eta' ! j = eta ! j"
  shows "ase_B_float64 m raman_matrix cr_raman eta' f_ase f
           = ase_B_float64 m raman_matrix cr_raman eta f_ase f"
proof -
  have "drop (f + 1) eta' = drop (f + 1) eta"
  proof (rule nth_equalityI)
    show "length (drop (f + 1) eta') = length (drop (f + 1) eta)"
      using assms(1) by simp
  next
    fix i assume "i < length (drop (f + 1) eta')"
    then have "f < f + 1 + i \<and> f + 1 + i < length eta" using assms(1) by simp
    then have "eta' ! (f + 1 + i) = eta ! (f + 1 + i)" using assms(2) by blast
    then show "drop (f + 1) eta' ! i = drop (f + 1) eta ! i"
      using assms(1) \<open>i < length (drop (f + 1) eta')\<close> by simp
  qed
  then show ?thesis by (simp add: ase_B_float64_def)
qed

lemma used_eta_finite:
  assumes f: "f < length freq_array"
    and far: "\<forall>j. f < j \<and> j < length freq_array \<longrightarrow>
                \<not> rounds_to_one (exp (Planck_constant * \<bar>freq_array ! j - freq_array ! f\<bar>
                                      / (Boltzmann_constant * 298)))"
    and j: "f < j" "j < length freq_array"
  shows "ase_eta_float64 (freq_diff_matrix freq_array ! f) ! j
           = Some (spec_eta (freq_diff_matrix freq_array ! f ! j))"
    and "ase_eta (freq_diff_matrix freq_array ! f) ! j
           = Some (spec_eta (freq_diff_matrix freq_array ! f ! j))"
proof -
  let ?row = "freq_diff_matrix freq_array ! f"
  let ?x = "Planck_constant * (?row ! j) / (Boltzmann_constant * 298)"
  have lrow: "length ?row = length freq_array"
    using f by (rule length_freq_diff_matrix_row)
  have d: "?row ! j = \<bar>freq_array ! j - freq_array ! f\<bar>"
    using f j by (simp add: freq_diff_matrix_nth)
  have nr: "\<not> rounds_to_one (exp ?x)" using far j d by simp
  then have ne: "exp ?x - 1 \<noteq> 0" using not_rounds_to_one_neq [of "exp ?x"] by simp
  have "np_exp ?x = exp ?x" using nr by (simp add: np_exp_def)
  then show "ase_eta_float64 ?row ! j = Some (spec_eta (?row ! j))"
    using ne j lrow by (simp add: ase_eta_float64_nth np_divide_def spec_eta_def)
  show "ase_eta ?row ! j = Some (spec_eta (?row ! j))"
    using ne j lrow by (simp add: ase_eta_nth np_divide_def spec_eta_def)
qed

text \<open>
  Claim C10, as amended. The row \<open>eta\<close> is evaluated at the slice's own zero offset, where
  the division is by zero, and the source term \<open>B\<close> reads the entries of higher index
  only. Whenever for every slice of higher index the exponential of
  \<^verbatim>\<open>h * freq_diff / (Kb * T)\<close> does not round to 1.0, every entry of \<open>eta\<close> that \<open>B\<close> reads is a
  finite number and \<open>B\<close> is finite at every grid point, with the value of the exact
  model. An offset of 1 mHz is enough for that (\<open>offset_millihertz\<close>).
\<close>

theorem ase_source_term_finite:
  assumes f: "f < length freq_array"
    and far: "\<forall>j. f < j \<and> j < length freq_array \<longrightarrow>
                \<not> rounds_to_one (exp (Planck_constant * \<bar>freq_array ! j - freq_array ! f\<bar>
                                      / (Boltzmann_constant * 298)))"
    and rows: "list_all (\<lambda>row. length row = m) raman_matrix"
  shows "ase_eta_float64 (freq_diff_matrix freq_array ! f) ! f = None
         \<and> (\<forall>j. f < j \<and> j < length freq_array \<longrightarrow>
                ase_eta_float64 (freq_diff_matrix freq_array ! f) ! j
                  = Some (spec_eta (freq_diff_matrix freq_array ! f ! j)))
         \<and> ase_B_float64 m raman_matrix cr_raman
               (ase_eta_float64 (freq_diff_matrix freq_array ! f)) f_ase f
             = map Some (ase_B m raman_matrix cr_raman
                           (ase_eta (freq_diff_matrix freq_array ! f)) f_ase f)
         \<and> (\<forall>eta'. length eta' = length freq_array
                     \<and> (\<forall>j. f < j \<and> j < length freq_array \<longrightarrow>
                            eta' ! j = ase_eta_float64 (freq_diff_matrix freq_array ! f) ! j)
                \<longrightarrow> ase_B_float64 m raman_matrix cr_raman eta' f_ase f
                      = ase_B_float64 m raman_matrix cr_raman
                          (ase_eta_float64 (freq_diff_matrix freq_array ! f)) f_ase f)"
proof (intro conjI allI impI)
  let ?row = "freq_diff_matrix freq_array ! f"
  have lrow: "length ?row = length freq_array"
    using f by (rule length_freq_diff_matrix_row)
  have "?row ! f = 0" using f by (simp add: freq_diff_matrix_nth)
  then show "ase_eta_float64 ?row ! f = None"
    using f lrow rounds_to_one_exp_0
    by (simp add: ase_eta_float64_nth np_exp_def np_divide_def)
next
  fix j assume "f < j \<and> j < length freq_array"
  then show "ase_eta_float64 (freq_diff_matrix freq_array ! f) ! j
               = Some (spec_eta (freq_diff_matrix freq_array ! f ! j))"
    using used_eta_finite(1) [OF f far] by blast
next
  let ?row = "freq_diff_matrix freq_array ! f"
  let ?es = "map spec_eta (drop (f + 1) ?row)"
  have lrow: "length ?row = length freq_array"
    using f by (rule length_freq_diff_matrix_row)
  have lf: "length (ase_eta_float64 ?row) = length freq_array"
    using lrow by (simp add: ase_eta_float64_def)
  have le: "length (ase_eta ?row) = length freq_array"
    using lrow by (simp add: ase_eta_def)
  have df: "drop (f + 1) (ase_eta_float64 ?row) = map Some ?es"
  proof (rule nth_equalityI)
    show "length (drop (f + 1) (ase_eta_float64 ?row)) = length (map Some ?es)"
      using lf lrow by simp
  next
    fix i assume "i < length (drop (f + 1) (ase_eta_float64 ?row))"
    then have i: "f < f + 1 + i" "f + 1 + i < length freq_array" using lf by simp_all
    then show "drop (f + 1) (ase_eta_float64 ?row) ! i = map Some ?es ! i"
      using used_eta_finite(1) [OF f far i] lf lrow by simp
  qed
  have de: "drop (f + 1) (ase_eta ?row) = map Some ?es"
  proof (rule nth_equalityI)
    show "length (drop (f + 1) (ase_eta ?row)) = length (map Some ?es)"
      using le lrow by simp
  next
    fix i assume "i < length (drop (f + 1) (ase_eta ?row))"
    then have i: "f < f + 1 + i" "f + 1 + i < length freq_array" using le by simp_all
    then show "drop (f + 1) (ase_eta ?row) ! i = map Some ?es ! i"
      using used_eta_finite(2) [OF f far i] le lrow by simp
  qed
  have "ase_B_float64 m raman_matrix cr_raman (ase_eta_float64 ?row) f_ase f
          = map Some (ase_B m raman_matrix cr_raman (ase_eta_float64 ?row) f_ase f)"
    using df rows by (rule ase_B_float64_finite)
  also have "ase_B m raman_matrix cr_raman (ase_eta_float64 ?row) f_ase f
               = ase_B m raman_matrix cr_raman (ase_eta ?row) f_ase f"
    unfolding ase_B_def df de ..
  finally show "ase_B_float64 m raman_matrix cr_raman (ase_eta_float64 ?row) f_ase f
                  = map Some (ase_B m raman_matrix cr_raman (ase_eta ?row) f_ase f)" .
next
  fix eta'
  let ?eta = "ase_eta_float64 (freq_diff_matrix freq_array ! f)"
  assume a: "length eta' = length freq_array
             \<and> (\<forall>j. f < j \<and> j < length freq_array \<longrightarrow> eta' ! j = ?eta ! j)"
  have leta: "length ?eta = length freq_array"
    using f by (simp add: ase_eta_float64_def length_freq_diff_matrix_row)
  show "ase_B_float64 m raman_matrix cr_raman eta' f_ase f
          = ase_B_float64 m raman_matrix cr_raman ?eta f_ase f"
    using a leta by (intro ase_B_float64_reads_higher_indices) simp_all
qed

theorem ase_source_term_finite_witness:
  "ase_eta_float64 (freq_diff_matrix [191000000000000, 191050000000000] ! 0) ! 0 = None
   \<and> ase_eta_float64 (freq_diff_matrix [191000000000000, 191050000000000] ! 0) ! 1
       = Some (spec_eta (freq_diff_matrix [191000000000000, 191050000000000] ! 0 ! 1))
   \<and> ase_B_float64 2 [[1 / 1000, 1 / 1000], [1 / 4, 1 / 4]] [0, 1 / 2000]
         (ase_eta_float64 (freq_diff_matrix [191000000000000, 191050000000000] ! 0))
         191000000000000 0
       = map Some
           (ase_B 2 [[1 / 1000, 1 / 1000], [1 / 4, 1 / 4]] [0, 1 / 2000]
              (ase_eta (freq_diff_matrix [191000000000000, 191050000000000] ! 0))
              191000000000000 0)
   \<and> ase_B_float64 2 [[1 / 1000, 1 / 1000], [1 / 4, 1 / 4]] [0, 1 / 2000]
         [Some 7, ase_eta_float64 (freq_diff_matrix [191000000000000, 191050000000000] ! 0) ! 1]
         191000000000000 0
       = ase_B_float64 2 [[1 / 1000, 1 / 1000], [1 / 4, 1 / 4]] [0, 1 / 2000]
           (ase_eta_float64 (freq_diff_matrix [191000000000000, 191050000000000] ! 0))
           191000000000000 0"
proof -
  let ?F = "[191000000000000, 191050000000000 :: real]"
  have f: "0 < length ?F" by simp
  have "\<not> rounds_to_one (exp (Planck_constant * \<bar>?F ! 1 - ?F ! 0\<bar>
                               / (Boltzmann_constant * 298)))"
    by (rule offset_millihertz) simp
  then have far: "\<forall>j. 0 < j \<and> j < length ?F \<longrightarrow>
                \<not> rounds_to_one (exp (Planck_constant * \<bar>?F ! j - ?F ! 0\<bar>
                                      / (Boltzmann_constant * 298)))"
    by (auto simp: less_Suc_eq)
  have rows: "list_all (\<lambda>row. length row = 2) [[1 / 1000, 1 / 1000], [1 / 4, 1 / 4 :: real]]"
    by simp
  note t = ase_source_term_finite [OF f far rows, of "[0, 1 / 2000]" 191000000000000]
  have "length [Some 7, ase_eta_float64 (freq_diff_matrix ?F ! 0) ! 1] = length ?F
        \<and> (\<forall>j. 0 < j \<and> j < length ?F \<longrightarrow>
              [Some 7, ase_eta_float64 (freq_diff_matrix ?F ! 0) ! 1] ! j
                = ase_eta_float64 (freq_diff_matrix ?F ! 0) ! j)"
    by (auto simp: less_Suc_eq)
  then show ?thesis using t by auto
qed

text \<open>
  Claim C10 as stated fails: the frequencies 1 Hz and 1.0001 Hz are distinct, yet the
  exponential for their offset rounds to 1.0, so the entry of \<open>eta\<close> that \<open>B\<close> reads
  is a division by zero and \<open>B\<close> is \<^verbatim>\<open>inf\<close> or \<^verbatim>\<open>nan\<close> at every grid point.
\<close>

theorem close_frequencies_source_term_not_finite:
  "distinct [1, 10001 / 10000 :: real]
   \<and> ase_eta_float64 (freq_diff_matrix [1, 10001 / 10000] ! 0) ! 1 = None
   \<and> ase_B_float64 2 [[1, 1], [1, 1]] [0, 1]
         (ase_eta_float64 (freq_diff_matrix [1, 10001 / 10000] ! 0)) 1 0 = [None, None]"
proof -
  have row: "freq_diff_matrix [1, 10001 / 10000] ! 0 = [0, 1 / 10000]"
    by (simp add: freq_diff_matrix_def)
  have eta: "ase_eta_float64 [0, 1 / 10000] = [None, None]"
    using rounds_to_one_exp_0 offset_tenth_millihertz
    by (simp add: ase_eta_float64_def Let_def np_exp_def np_divide_def)
  show ?thesis
    unfolding row eta
    by (simp add: ase_B_float64_def Let_def np_lift2_def np_sum_def upt_rec)
qed

theorem ase_int_zero_at_origin_witness:
  "ase_int [0, 1] [[1, 1], [1, 1]] [0, 0] [1, 2] [[0, 1], [1, 0]] [[0, 1], [1, 0]]
     (replicate (length [1, 2 :: real]) 0) ! 1 ! 0 = 0"
proof -
  have s: "ase_shapes 2 2 [0, 1] [[1, 1], [1, 1]] [0, 0] [1, 2] [[0, 1], [1, 0]] [[0, 1], [1, 0]]"
    by (simp add: ase_shapes_def)
  have fr: "\<forall>x \<in> set [1, 2 :: real]. x \<noteq> 0" by simp
  show ?thesis
    using ase_int_zero_at_origin [OF s _ _ fr, of 1] by simp
qed

theorem ase_int_closed_form_witness:
  "ase_int [0, 1] [[1, 1], [1, 1]] [0, 0] [1, 2] [[0, 1], [1, 0]] [[0, 1], [1, 0]]
     (replicate (length [1, 2 :: real]) 0) ! 0 ! 1
   = spec_ase 2 [0, 1] [[1, 1], [1, 1]] [0, 0] [1, 2] [[0, 1], [1, 0]] [[0, 1], [1, 0]] 0 1"
proof -
  have s: "ase_shapes 2 2 [0, 1] [[1, 1], [1, 1]] [0, 0] [1, 2] [[0, 1], [1, 0]] [[0, 1], [1, 0]]"
    by (simp add: ase_shapes_def)
  have fr: "\<forall>x \<in> set [1, 2 :: real]. x \<noteq> 0" by simp
  have off: "\<forall>j. 0 < j \<and> j < 2 \<longrightarrow> [[0, 1], [1, 0 :: real]] ! 0 ! j \<noteq> 0"
    by (auto simp: less_Suc_eq numeral_2_eq_2)
  show ?thesis
    using ase_int_closed_form [OF s _ _ fr off, of 1] by simp
qed

section \<open>Properties of the solver object\<close>

lemma np_arange_example: "np_arange 2 1 = Inr [0, 1]"
  by (simp add: np_arange_def upt_rec)

lemma example_coefficients:
  "fiber_coefficients example_fiber [1] = Inr ([0], [[0]], [[0]])"
  by (simp add: fiber_coefficients_def example_fiber_def bind_result_def times_ones_def
      times_ones_matrix_def freq_diff_matrix_def)

lemma example_profile:
  "compute_raman_profile (returning_guess st) example_fiber example_params ([pch], [1], [1])
     = Inr \<lparr>profile_frequency = [1], profile_z = [0, 1],
            profile_rho = [[sqrt_ratio pch pch, sqrt_ratio pch pch]],
            profile_power = [[pch, pch]], profile_status = st, profile_success = (st = 0)\<rparr>"
proof -
  have l: "fiber_length example_fiber + 1 = 2" by (simp add: example_fiber_def)
  have r: "z_resolution example_params = 1" by (simp add: example_params_def)
  show ?thesis
    unfolding compute_raman_profile_def
    by (simp add: example_coefficients bind_result_def l r np_arange_example
        returning_guess_def initial_guess_raman_def rho_of_def)
qed


lemma example_solver_fields:
  "s_raman_bvp_solution (example_solver pch) = None"
  "s_raman_ase_solution (example_solver pch) = None"
  "s_fiber_information (example_solver pch) = Some example_fiber"
  "s_solver_params (example_solver pch) = Some example_params"
  "compute_power_spectrum (s_spectral_information (example_solver pch))
     (s_raman_pump_information (example_solver pch)) = Inr ([pch], [1], [1])"
  "effects (example_solver pch) = []"
  by (simp_all add: example_solver_def set_solver_params_def set_raman_pump_information_def
      set_spectral_information_def RamanSolver_init_def compute_power_spectrum_def)

lemma example_read:
  "raman_bvp_solution (returning_guess st) (example_solver pch)
     = (Inr \<lparr>profile_frequency = [1], profile_z = [0, 1],
              profile_rho = [[sqrt_ratio pch pch, sqrt_ratio pch pch]],
              profile_power = [[pch, pch]], profile_status = st, profile_success = (st = 0)\<rparr>,
        (example_solver pch)\<lparr>s_raman_bvp_solution :=
           Some \<lparr>profile_frequency = [1], profile_z = [0, 1],
              profile_rho = [[sqrt_ratio pch pch, sqrt_ratio pch pch]],
              profile_power = [[pch, pch]], profile_status = st, profile_success = (st = 0)\<rparr>\<rparr>)"
proof -
  have v: "verbose example_params = 0" by (simp add: example_params_def)
  show ?thesis
    by (simp add: raman_bvp_solution_def example_solver_fields bind_result_def example_profile v)
qed

lemma setters_clear_bvp_cache:
  "s_raman_bvp_solution (set_fiber_information fi self) = None"
  "s_raman_bvp_solution (set_spectral_information si self) = None"
  "s_raman_bvp_solution (set_solver_params sp self) = None"
  by (simp_all add: set_fiber_information_def set_spectral_information_def set_solver_params_def)

lemma pump_setter_keeps_bvp_cache:
  "s_raman_bvp_solution (set_raman_pump_information rp self) = s_raman_bvp_solution self"
  by (simp add: set_raman_pump_information_def)

lemma cached_read:
  "s_raman_bvp_solution self = Some solution \<Longrightarrow>
   raman_bvp_solution solve_bvp self = (Inr solution, self)"
  by (simp add: raman_bvp_solution_def)

lemma pumped_coefficients:
  "fiber_coefficients example_fiber [1, 2] = Inr ([0, 0], [[0, 1], [1, 0]], [[0, 0], [0, 0]])"
  by (simp add: fiber_coefficients_def example_fiber_def bind_result_def times_ones_def
      times_ones_matrix_def freq_diff_matrix_def)

lemma pumped_profile:
  "compute_raman_profile (returning_guess st) example_fiber example_params
       ([pch, 1], [1, 2], [1, - 1])
     = Inr \<lparr>profile_frequency = [1, 2], profile_z = [0, 1],
            profile_rho = [[sqrt_ratio pch pch, sqrt_ratio pch pch], [Some 1, Some 1]],
            profile_power = [[pch, pch], [1, 1]], profile_status = st,
            profile_success = (st = 0)\<rparr>"
proof -
  have l: "fiber_length example_fiber + 1 = 2" by (simp add: example_fiber_def)
  have r: "z_resolution example_params = 1" by (simp add: example_params_def)
  show ?thesis
    unfolding compute_raman_profile_def
    by (simp add: pumped_coefficients bind_result_def l r np_arange_example
        returning_guess_def initial_guess_raman_def rho_of_def sqrt_ratio_def)
qed

lemma pumped_solver_fields:
  "s_raman_bvp_solution (set_raman_pump_information (Some example_pumps) (example_solver pch)) = None"
  "s_fiber_information (set_raman_pump_information (Some example_pumps) (example_solver pch))
     = Some example_fiber"
  "s_solver_params (set_raman_pump_information (Some example_pumps) (example_solver pch))
     = Some example_params"
  "compute_power_spectrum
     (s_spectral_information (set_raman_pump_information (Some example_pumps) (example_solver pch)))
     (s_raman_pump_information (set_raman_pump_information (Some example_pumps) (example_solver pch)))
     = Inr ([pch, 1], [1, 2], [1, - 1])"
  by (simp_all add: example_solver_def set_solver_params_def set_raman_pump_information_def
      set_spectral_information_def RamanSolver_init_def compute_power_spectrum_def
      example_pumps_def)

text \<open>
  Claim C5. Three of the four setters clear the cached Raman solution
  (\<open>setters_clear_bvp_cache\<close>) and the noise attribute is never assigned
  (\<open>ase_attribute_never_assigned\<close>); the setter of \<^verbatim>\<open>raman_pump_information\<close>
  clears nothing. After
  a first read has cached the solution for a channel alone, giving the solver a pump and
  reading again returns the cached solution for the channel alone, while a solver that
  is given the same pump before its first read computes a solution with two slices.
\<close>

theorem raman_pump_setter_keeps_stale_solution:
  "fst (raman_bvp_solution (returning_guess 0)
          (set_raman_pump_information (Some example_pumps)
             (snd (raman_bvp_solution (returning_guess 0) (example_solver 1)))))
     = fst (raman_bvp_solution (returning_guess 0) (example_solver 1))
   \<and> map_sum id profile_frequency
         (fst (raman_bvp_solution (returning_guess 0) (example_solver 1))) = Inr [1]
   \<and> map_sum id profile_frequency
         (fst (raman_bvp_solution (returning_guess 0)
                 (set_raman_pump_information (Some example_pumps) (example_solver 1))))
       = Inr [1, 2]"
proof -
  have v: "verbose example_params = 0" by (simp add: example_params_def)
  have fresh: "map_sum id profile_frequency
         (fst (raman_bvp_solution (returning_guess 0)
                 (set_raman_pump_information (Some example_pumps) (example_solver 1))))
       = Inr [1, 2]"
    by (simp add: raman_bvp_solution_def pumped_solver_fields bind_result_def pumped_profile v)
  show ?thesis
    using fresh
    by (simp add: example_read cached_read pump_setter_keeps_bvp_cache)
qed

text \<open>
  Claim C4, as amended. The getter does not look at the outcome of the solve: whatever
  result \<^verbatim>\<open>solve_bvp\<close> returns for the inputs of the solver, converged or not, is returned
  with its mesh, its solution and its \<^verbatim>\<open>status\<close> and \<^verbatim>\<open>success\<close> fields unchanged, and is
  cached.
\<close>

theorem raman_bvp_solution_passes_result_through:
  assumes cache: "s_raman_bvp_solution self = None"
    and fiber: "s_fiber_information self = Some fiber"
    and params: "s_solver_params self = Some params"
    and spectrum: "compute_power_spectrum (s_spectral_information self)
                     (s_raman_pump_information self) = Inr (power_spectrum, freq_array, prop_direct)"
    and coefficients: "fiber_coefficients fiber freq_array = Inr (alphap_fiber, freq_diff, cr)"
    and mesh: "np_arange (fiber_length fiber + 1) (z_resolution params) = Inr z"
    and solve: "solve_bvp (\<lambda>z p. ode_raman z p alphap_fiber freq_array cr prop_direct)
                  (\<lambda>ya yb. residuals_raman ya yb power_spectrum prop_direct) z
                  (initial_guess_raman z power_spectrum alphap_fiber prop_direct)
                  (tolerance params) (verbose params) = Inr res"
    and rows: "length (sol_y res) = length power_spectrum"
  shows "\<exists>p. fst (raman_bvp_solution solve_bvp self) = Inr p
             \<and> s_raman_bvp_solution (snd (raman_bvp_solution solve_bvp self)) = Some p
             \<and> profile_success p = sol_success res \<and> profile_status p = sol_status res
             \<and> profile_power p = sol_y res \<and> profile_z p = sol_x res
             \<and> profile_frequency p = freq_array"
proof -
  have "\<exists>rho. compute_raman_profile solve_bvp fiber params (power_spectrum, freq_array, prop_direct)
          = Inr \<lparr>profile_frequency = freq_array, profile_z = sol_x res, profile_rho = rho,
                 profile_power = sol_y res, profile_status = sol_status res,
                 profile_success = sol_success res\<rparr>"
    using coefficients mesh solve rows
    by (simp add: compute_raman_profile_def bind_result_def rho_of_def)
  then obtain rho where "compute_raman_profile solve_bvp fiber params
          (power_spectrum, freq_array, prop_direct)
          = Inr \<lparr>profile_frequency = freq_array, profile_z = sol_x res, profile_rho = rho,
                 profile_power = sol_y res, profile_status = sol_status res,
                 profile_success = sol_success res\<rparr>" ..
  then show ?thesis
    using cache fiber params spectrum
    by (simp add: raman_bvp_solution_def bind_result_def Let_def)
qed

theorem raman_bvp_solution_passes_result_through_witness:
  "\<exists>p. fst (raman_bvp_solution (returning_guess 1) (example_solver 1)) = Inr p
       \<and> s_raman_bvp_solution (snd (raman_bvp_solution (returning_guess 1) (example_solver 1)))
           = Some p
       \<and> profile_success p = False \<and> profile_status p = 1
       \<and> profile_power p = [[1, 1]] \<and> profile_z p = [0, 1] \<and> profile_frequency p = [1]"
proof -
  have mesh: "np_arange (fiber_length example_fiber + 1) (z_resolution example_params) = Inr [0, 1]"
    by (simp add: example_fiber_def example_params_def np_arange_example)
  have solve: "returning_guess 1 (\<lambda>z p. ode_raman z p [0] [1] [[0]] [1])
                  (\<lambda>ya yb. residuals_raman ya yb [1] [1]) [0, 1]
                  (initial_guess_raman [0, 1] [1] [0] [1])
                  (tolerance example_params) (verbose example_params)
                = Inr \<lparr>sol_x = [0, 1], sol_y = [[1, 1]], sol_status = 1, sol_success = False\<rparr>"
    by (simp add: returning_guess_def initial_guess_raman_def)
  show ?thesis
    using raman_bvp_solution_passes_result_through
      [where solve_bvp = "returning_guess 1" and self = "example_solver 1"
         and fiber = example_fiber and params = example_params
         and power_spectrum = "[1]" and freq_array = "[1]" and prop_direct = "[1]"
         and alphap_fiber = "[0]" and freq_diff = "[[0]]" and cr = "[[0]]" and z = "[0, 1]"
         and res = "\<lparr>sol_x = [0, 1], sol_y = [[1, 1]], sol_status = 1, sol_success = False\<rparr>",
       OF example_solver_fields(1) example_solver_fields(3) example_solver_fields(4)
          example_solver_fields(5) example_coefficients mesh solve]
    by simp
qed

text \<open>
  Claim C4 as stated fails: for a solve that ends with status 1 the getter returns the
  profile and stores it in the cache; no failure is raised.
\<close>

theorem unconverged_solution_returned_and_cached:
  "raman_bvp_solution (returning_guess 1) (example_solver 1)
     = (Inr \<lparr>profile_frequency = [1], profile_z = [0, 1],
              profile_rho = [[Some 1, Some 1]], profile_power = [[1, 1]],
              profile_status = 1, profile_success = False\<rparr>,
        (example_solver 1)\<lparr>s_raman_bvp_solution :=
           Some \<lparr>profile_frequency = [1], profile_z = [0, 1],
                  profile_rho = [[Some 1, Some 1]], profile_power = [[1, 1]],
                  profile_status = 1, profile_success = False\<rparr>\<rparr>)"
  by (simp add: example_read sqrt_ratio_def)








section \<open>Properties of the coefficient tables and of the noise getter\<close>









lemma uncached_read:
  assumes "s_raman_bvp_solution s = None" "s_fiber_information s = Some f"
    "compute_power_spectrum (s_spectral_information s) (s_raman_pump_information s) = Inr sp"
  shows "fst (raman_bvp_solution solve_bvp s)
           = (case s_solver_params s of None \<Rightarrow> Inl AttributeError
              | Some params \<Rightarrow> compute_raman_profile solve_bvp f params sp)"
    and "effects (snd (raman_bvp_solution solve_bvp s))
           = (case s_solver_params s of None \<Rightarrow> effects s
              | Some params \<Rightarrow>
                  if verbose params \<noteq> 0
                  then effects s @ [Print ''Start computing fiber Raman profile'']
                  else effects s)"
    and "s_raman_ase_solution (snd (raman_bvp_solution solve_bvp s)) = s_raman_ase_solution s"
  using assms
  by (simp_all add: raman_bvp_solution_def bind_result_def emit_def Let_def
      split: option.splits sum.splits)

lemma raman_ase_solution_body:
  assumes "s_fiber_information s = Some f" "s_solver_params s = Some params"
    "s_raman_ase_solution s = None"
  shows "raman_ase_solution solve_bvp s
      = (case bind_result
                (compute_power_spectrum (s_spectral_information s) (s_raman_pump_information s))
                (\<lambda>(power_spectrum, freq_array, prop_direct).
                   bind_result (fiber_coefficients f freq_array)
                     (\<lambda>coefficients. Inr (freq_array, coefficients))) of
           Inl e \<Rightarrow> (Inl e, if verbose params \<noteq> 0
                         then emit [Print ''Start computing fiber Raman ASE''] s else s)
         | Inr (freq_array, alphap_fiber, freq_diff, cr) \<Rightarrow>
             (case raman_bvp_solution solve_bvp
                     (if verbose params \<noteq> 0
                      then emit [Print ''Start computing fiber Raman ASE''] s else s) of
                (Inl e, self2) \<Rightarrow> (Inl e, self2)
              | (Inr solution, self2) \<Rightarrow>
                  (let z_array = profile_z solution;
                       pase0 = replicate (length freq_array) 0;
                       power_aselin = ase_int z_array (profile_power solution)
                                        alphap_fiber freq_array cr freq_diff pase0;
                       power_ase = map (map np_dBm) power_aselin;
                       X = map (\<lambda>v. v * (1 / 10 ^ 3)) z_array;
                       Y = map (\<lambda>v. v * (1 / 10 ^ 12)) freq_array;
                       self3 = emit [Plot_surface X Y power_ase, Plot X power_ase,
                                     Show, Print ''1''] self2
                   in (Inr (s_raman_ase_solution self3), self3))))"
  using assms by (simp add: raman_ase_solution_def Let_def)

lemma ase_read:
  assumes "s_raman_bvp_solution s = None" "s_fiber_information s = Some f"
    "s_solver_params s = Some params" "s_raman_ase_solution s = None"
    "compute_power_spectrum (s_spectral_information s) (s_raman_pump_information s)
       = Inr (power_spectrum, freq_array, prop_direct)"
  shows "fst (raman_ase_solution solve_bvp s)
           = (case fiber_coefficients f freq_array of Inl e \<Rightarrow> Inl e
              | Inr coefficients \<Rightarrow>
                  (case compute_raman_profile solve_bvp f params
                          (power_spectrum, freq_array, prop_direct) of
                     Inl e \<Rightarrow> Inl e | Inr solution \<Rightarrow> Inr None))"
    and "effects (snd (raman_ase_solution solve_bvp s))
           = effects s
             @ (if verbose params \<noteq> 0 then [Print ''Start computing fiber Raman ASE''] else [])
             @ (case fiber_coefficients f freq_array of Inl e \<Rightarrow> []
                | Inr (alphap_fiber, freq_diff, cr) \<Rightarrow>
                    (if verbose params \<noteq> 0 then [Print ''Start computing fiber Raman profile'']
                     else [])
                    @ (case compute_raman_profile solve_bvp f params
                              (power_spectrum, freq_array, prop_direct) of
                         Inl e \<Rightarrow> []
                       | Inr solution \<Rightarrow>
                           (let power_ase = map (map np_dBm)
                                  (ase_int (profile_z solution) (profile_power solution)
                                     alphap_fiber freq_array cr freq_diff
                                     (replicate (length freq_array) 0));
                                X = map (\<lambda>v. v * (1 / 10 ^ 3)) (profile_z solution);
                                Y = map (\<lambda>v. v * (1 / 10 ^ 12)) freq_array
                            in [Plot_surface X Y power_ase, Plot X power_ase, Show,
                                Print ''1''])))"
proof -
  define s1 where "s1 = (if verbose params \<noteq> 0
                          then emit [Print ''Start computing fiber Raman ASE''] s else s)"
  have s1: "s_raman_bvp_solution s1 = None" "s_fiber_information s1 = Some f"
    "s_solver_params s1 = Some params" "s_raman_ase_solution s1 = None"
    "compute_power_spectrum (s_spectral_information s1) (s_raman_pump_information s1)
       = Inr (power_spectrum, freq_array, prop_direct)"
    "effects s1 = effects s
       @ (if verbose params \<noteq> 0 then [Print ''Start computing fiber Raman ASE''] else [])"
    using assms by (simp_all add: s1_def emit_def)
  note inner = uncached_read [OF s1(1) s1(2) s1(5), of solve_bvp]
  obtain r s2 where rs: "raman_bvp_solution solve_bvp s1 = (r, s2)" by force
  have r: "r = compute_raman_profile solve_bvp f params (power_spectrum, freq_array, prop_direct)"
    and e2: "effects s2 = effects s1
               @ (if verbose params \<noteq> 0 then [Print ''Start computing fiber Raman profile'']
                  else [])"
    and a2: "s_raman_ase_solution s2 = None"
    using inner rs s1(3) s1(4) by simp_all
  have unfold: "raman_ase_solution solve_bvp s
      = (case fiber_coefficients f freq_array of
           Inl e \<Rightarrow> (Inl e, s1)
         | Inr (alphap_fiber, freq_diff, cr) \<Rightarrow>
             (case r of
                Inl e \<Rightarrow> (Inl e, s2)
              | Inr solution \<Rightarrow>
                  (let z_array = profile_z solution;
                       pase0 = replicate (length freq_array) 0;
                       power_aselin = ase_int z_array (profile_power solution)
                                        alphap_fiber freq_array cr freq_diff pase0;
                       power_ase = map (map np_dBm) power_aselin;
                       X = map (\<lambda>v. v * (1 / 10 ^ 3)) z_array;
                       Y = map (\<lambda>v. v * (1 / 10 ^ 12)) freq_array;
                       self3 = emit [Plot_surface X Y power_ase, Plot X power_ase,
                                     Show, Print ''1''] s2
                   in (Inr (s_raman_ase_solution self3), self3))))"
  proof -
    have step: "raman_ase_solution solve_bvp s
      = (case bind_result
                (compute_power_spectrum (s_spectral_information s) (s_raman_pump_information s))
                (\<lambda>(power_spectrum, freq_array, prop_direct).
                   bind_result (fiber_coefficients f freq_array)
                     (\<lambda>coefficients. Inr (freq_array, coefficients))) of
           Inl e \<Rightarrow> (Inl e, s1)
         | Inr (freq_array, alphap_fiber, freq_diff, cr) \<Rightarrow>
             (case raman_bvp_solution solve_bvp s1 of
                (Inl e, self2) \<Rightarrow> (Inl e, self2)
              | (Inr solution, self2) \<Rightarrow>
                  (let z_array = profile_z solution;
                       pase0 = replicate (length freq_array) 0;
                       power_aselin = ase_int z_array (profile_power solution)
                                        alphap_fiber freq_array cr freq_diff pase0;
                       power_ase = map (map np_dBm) power_aselin;
                       X = map (\<lambda>v. v * (1 / 10 ^ 3)) z_array;
                       Y = map (\<lambda>v. v * (1 / 10 ^ 12)) freq_array;
                       self3 = emit [Plot_surface X Y power_ase, Plot X power_ase,
                                     Show, Print ''1''] self2
                   in (Inr (s_raman_ase_solution self3), self3))))"
      unfolding s1_def using assms(2) assms(3) assms(4) by (rule raman_ase_solution_body)
    show ?thesis
      unfolding step using assms(5) rs
      by (simp add: bind_result_def Let_def split: sum.splits prod.splits)
  qed
  show "fst (raman_ase_solution solve_bvp s)
           = (case fiber_coefficients f freq_array of Inl e \<Rightarrow> Inl e
              | Inr coefficients \<Rightarrow>
                  (case compute_raman_profile solve_bvp f params
                          (power_spectrum, freq_array, prop_direct) of
                     Inl e \<Rightarrow> Inl e | Inr solution \<Rightarrow> Inr None))"
    unfolding unfold using a2 r
    by (simp add: emit_def Let_def split: sum.splits prod.splits)
  show "effects (snd (raman_ase_solution solve_bvp s))
           = effects s
             @ (if verbose params \<noteq> 0 then [Print ''Start computing fiber Raman ASE''] else [])
             @ (case fiber_coefficients f freq_array of Inl e \<Rightarrow> []
                | Inr (alphap_fiber, freq_diff, cr) \<Rightarrow>
                    (if verbose params \<noteq> 0 then [Print ''Start computing fiber Raman profile'']
                     else [])
                    @ (case compute_raman_profile solve_bvp f params
                              (power_spectrum, freq_array, prop_direct) of
                         Inl e \<Rightarrow> []
                       | Inr solution \<Rightarrow>
                           (let power_ase = map (map np_dBm)
                                  (ase_int (profile_z solution) (profile_power solution)
                                     alphap_fiber freq_array cr freq_diff
                                     (replicate (length freq_array) 0));
                                X = map (\<lambda>v. v * (1 / 10 ^ 3)) (profile_z solution);
                                Y = map (\<lambda>v. v * (1 / 10 ^ 12)) freq_array
                            in [Plot_surface X Y power_ase, Plot X power_ase, Show,
                                Print ''1''])))"
    unfolding unfold using e2 s1(6) r
    by (simp add: emit_def Let_def split: sum.splits prod.splits)
qed

lemma bvp_read_keeps_ase_attribute:
  "s_raman_ase_solution (snd (raman_bvp_solution solve_bvp s)) = s_raman_ase_solution s"
  by (simp add: raman_bvp_solution_def emit_def Let_def split: option.splits sum.splits)

lemma example_noise:
  "ase_int [0, 1] [[pch, pch]] [0] [1] [[0]] [[0]] [0] = [[0, 0]]"
  by (simp add: ase_int_def ase_int_row_def ase_int_A_def ase_B_def ase_eta_def Let_def
      sum_axis0_def scale_rows_def column_def cumtrapz_def cumsum_def np_diff_def upt_rec)

text \<open>
  Claim C6, as amended. On a solver with valid inputs (nonzero slice frequencies whose
  offsets \<^verbatim>\<open>np.exp\<close> resolves) and no stored noise solution, the getter
  \<^verbatim>\<open>raman_ase_solution\<close> computes the noise power with \<^verbatim>\<open>_ase_int\<close> on the z grid and the
  power of the Raman solution, with zero initial condition, and plots it in dBm
  (\<^verbatim>\<open>-inf\<close> where the noise power is 0) as a surface and as lines, shows the figures and
  prints, after whatever reading the Raman solution printed.
\<close>

theorem raman_ase_solution_plots_noise:
  assumes fiber: "s_fiber_information self = Some fiber"
    and params: "s_solver_params self = Some params"
    and ase: "s_raman_ase_solution self = None"
    and spectrum: "compute_power_spectrum (s_spectral_information self)
                     (s_raman_pump_information self) = Inr (power_spectrum, freq_array, prop_direct)"
    and coefficients: "fiber_coefficients fiber freq_array = Inr (alphap_fiber, freq_diff, cr)"
    and profile: "raman_bvp_solution solve_bvp
                    (if verbose params \<noteq> 0
                     then emit [Print ''Start computing fiber Raman ASE''] self else self)
                  = (Inr solution, self2)"
    and freq: "\<forall>x \<in> set freq_array. x \<noteq> 0"
    and offsets: "\<forall>f j. f < j \<and> j < length freq_array \<longrightarrow>
                    \<not> rounds_to_one (exp (Planck_constant * \<bar>freq_array ! j - freq_array ! f\<bar>
                                          / (Boltzmann_constant * 298)))"
  shows "effects (snd (raman_ase_solution solve_bvp self))
           = effects self2
             @ [Plot_surface (map (\<lambda>v. v * (1 / 10 ^ 3)) (profile_z solution))
                  (map (\<lambda>v. v * (1 / 10 ^ 12)) freq_array)
                  (map (map np_dBm)
                     (ase_int (profile_z solution) (profile_power solution) alphap_fiber
                        freq_array cr freq_diff (replicate (length freq_array) 0))),
                Plot (map (\<lambda>v. v * (1 / 10 ^ 3)) (profile_z solution))
                  (map (map np_dBm)
                     (ase_int (profile_z solution) (profile_power solution) alphap_fiber
                        freq_array cr freq_diff (replicate (length freq_array) 0))),
                Show, Print ''1'']"
  unfolding raman_ase_solution_body [OF fiber params ase]
  using spectrum coefficients profile
  by (simp add: bind_result_def Let_def emit_def)

theorem raman_ase_solution_plots_noise_witness:
  "effects (snd (raman_ase_solution (returning_guess 0) (example_solver 1)))
     = [Plot_surface [0, 1 / 1000] [1 / 10 ^ 12] [[Minus_inf, Minus_inf]],
        Plot [0, 1 / 1000] [[Minus_inf, Minus_inf]], Show, Print ''1'']"
proof -
  have v: "verbose example_params = 0" by (simp add: example_params_def)
  have p: "raman_bvp_solution (returning_guess 0)
             (if verbose example_params \<noteq> 0
              then emit [Print ''Start computing fiber Raman ASE''] (example_solver 1)
              else example_solver 1)
           = (Inr \<lparr>profile_frequency = [1], profile_z = [0, 1],
                    profile_rho = [[sqrt_ratio 1 1, sqrt_ratio 1 1]],
                    profile_power = [[1, 1]], profile_status = 0, profile_success = True\<rparr>,
              (example_solver 1)\<lparr>s_raman_bvp_solution :=
                 Some \<lparr>profile_frequency = [1], profile_z = [0, 1],
                    profile_rho = [[sqrt_ratio 1 1, sqrt_ratio 1 1]],
                    profile_power = [[1, 1]], profile_status = 0, profile_success = True\<rparr>\<rparr>)"
    using example_read [of 0 1] by (simp add: v)
  show ?thesis
    using raman_ase_solution_plots_noise
      [OF example_solver_fields(3) example_solver_fields(4) example_solver_fields(2)
          example_solver_fields(5) example_coefficients p]
    by (simp add: example_noise example_solver_fields(6) np_dBm_def)
qed

text \<open>
  Claim C6 as stated fails: the getter returns \<^verbatim>\<open>None\<close>, leaves the attribute
  \<^verbatim>\<open>_raman_ase_solution\<close> empty, and shows figures.
\<close>

theorem raman_ase_solution_returns_none_and_plots:
  "fst (raman_ase_solution (returning_guess 0) (example_solver 1)) = Inr None
   \<and> s_raman_ase_solution (snd (raman_ase_solution (returning_guess 0) (example_solver 1))) = None
   \<and> Show \<in> set (effects (snd (raman_ase_solution (returning_guess 0) (example_solver 1))))"
proof -
  have v: "verbose example_params = 0" by (simp add: example_params_def)
  note r = ase_read [OF example_solver_fields(1) example_solver_fields(3)
      example_solver_fields(4) example_solver_fields(2) example_solver_fields(5),
      of "returning_guess 0" 1]
  have 1: "fst (raman_ase_solution (returning_guess 0) (example_solver 1)) = Inr None"
    using r(1) by (simp add: example_coefficients example_profile)
  have 3: "Show \<in> set (effects (snd (raman_ase_solution (returning_guess 0) (example_solver 1))))"
    using r(2) by (simp add: example_coefficients example_profile v Let_def)
  have 2: "s_raman_ase_solution (snd (raman_ase_solution (returning_guess 0) (example_solver 1)))
             = None"
    unfolding raman_ase_solution_body
      [OF example_solver_fields(3) example_solver_fields(4) example_solver_fields(2)]
    by (simp add: example_solver_fields(5) bind_result_def example_coefficients v example_read
        Let_def emit_def example_solver_fields(2))
  show ?thesis using 1 2 3 by simp
qed





section \<open>The noise attribute\<close>

text \<open>
  No operation of the class assigns \<^verbatim>\<open>_raman_ase_solution\<close>: it is \<^verbatim>\<open>None\<close> after
  construction and every setter and getter leaves it as it is.
\<close>

lemma ase_attribute_never_assigned:
  "s_raman_ase_solution (RamanSolver_init fi) = None"
  "s_raman_ase_solution (set_fiber_information fi self) = s_raman_ase_solution self"
  "s_raman_ase_solution (set_spectral_information si self) = s_raman_ase_solution self"
  "s_raman_ase_solution (set_raman_pump_information rp self) = s_raman_ase_solution self"
  "s_raman_ase_solution (set_solver_params sp self) = s_raman_ase_solution self"
  "s_raman_ase_solution (snd (raman_bvp_solution solve_bvp self)) = s_raman_ase_solution self"
  "s_raman_ase_solution (snd (raman_ase_solution solve_bvp self)) = s_raman_ase_solution self"
proof -
  show "s_raman_ase_solution (RamanSolver_init fi) = None"
    by (simp add: RamanSolver_init_def)
  show "s_raman_ase_solution (set_fiber_information fi self) = s_raman_ase_solution self"
    by (simp add: set_fiber_information_def)
  show "s_raman_ase_solution (set_spectral_information si self) = s_raman_ase_solution self"
    by (simp add: set_spectral_information_def)
  show "s_raman_ase_solution (set_raman_pump_information rp self) = s_raman_ase_solution self"
    by (simp add: set_raman_pump_information_def)
  show "s_raman_ase_solution (set_solver_params sp self) = s_raman_ase_solution self"
    by (simp add: set_solver_params_def)
  show "s_raman_ase_solution (snd (raman_bvp_solution solve_bvp self)) = s_raman_ase_solution self"
    by (rule bvp_read_keeps_ase_attribute)
  show "s_raman_ase_solution (snd (raman_ase_solution solve_bvp self)) = s_raman_ase_solution self"
  proof (cases "s_raman_ase_solution self")
    case (Some a)
    then show ?thesis by (simp add: raman_ase_solution_def)
  next
    case None
    show ?thesis
    proof (cases "s_fiber_information self")
      case fi: None
      then show ?thesis using None by (simp add: raman_ase_solution_def)
    next
      case fi: (Some f)
      show ?thesis
      proof (cases "s_solver_params self")
        case sp: None
        then show ?thesis using None fi by (simp add: raman_ase_solution_def)
      next
        case sp: (Some params)
        define s1 where "s1 = (if verbose params \<noteq> 0
                          then emit [Print ''Start computing fiber Raman ASE''] self else self)"
        have s1: "s_raman_ase_solution s1 = s_raman_ase_solution self"
          by (simp add: s1_def emit_def)
        obtain r s2 where rs: "raman_bvp_solution solve_bvp s1 = (r, s2)" by force
        then have s2: "s_raman_ase_solution s2 = s_raman_ase_solution self"
          using bvp_read_keeps_ase_attribute [of solve_bvp s1] s1 by simp
        show ?thesis
          unfolding raman_ase_solution_body [OF fi sp None] s1_def [symmetric] rs
          using s1 s2
          by (simp add: emit_def Let_def split: sum.splits prod.splits)
      qed
    qed
  qed
qed

end
